theory Spec2Isabelle
  imports Main "HOL-Library.Sublist" "HOL-Library.Char_ord" "HOL-Library.List_Lexorder"
begin

section \<open>The pilot-job scraper (scraper.py)\<close>

text \<open>
  A shallow embedding of \<^verbatim>\<open>src/scraper.py\<close>. Python strings are \<open>string\<close>
  (the text is taken as ASCII: \<open>str.lower\<close> acts on the letters A to Z and
  \<open>str.strip\<close> on the ASCII white space), a job dictionary with its four keys is
  the record \<open>listing\<close>, a Python \<open>dict\<close> is an association list in insertion
  order with distinct keys, and every exception the code can raise is a value of
  \<open>error\<close>, returned as \<open>Inl\<close>.
\<close>

subsection \<open>Exceptions and data\<close>

datatype error =
  ConnectionError | AttributeError | TypeError | KeyError | ValueError | OverflowError

record listing =
  title :: string
  company :: string
  link :: string
  source :: string

subsection \<open>Filtering: \<open>filter_jobs\<close>\<close>

definition KEYWORDS :: "string list" where
  "KEYWORDS = [''caravan'', ''pc-12'', ''sky courier'', ''cargo'', ''part 135'']"

definition lower_char :: "char \<Rightarrow> char" where
  "lower_char c =
     (if CHR ''A'' \<le> c \<and> c \<le> CHR ''Z'' then char_of (of_char c + (32::nat)) else c)"

text \<open>\<open>s.lower()\<close>\<close>

definition lower :: "string \<Rightarrow> string" where
  "lower s = map lower_char s"

text \<open>\<open>k in t\<close> on strings: \<open>k\<close> occurs in \<open>t\<close> as a contiguous run.\<close>

fun str_in :: "string \<Rightarrow> string \<Rightarrow> bool" where
  "str_in k [] = (k = [])"
| "str_in k (c # cs) = (prefix k (c # cs) \<or> str_in k cs)"

text \<open>
  The loop of \<open>filter_jobs\<close>, with the list \<open>filtered\<close> built so far. The keyword
  list is the global \<open>KEYWORDS\<close> in the source; the loop takes it as \<open>kws\<close>.
\<close>

fun filter_loop :: "string list \<Rightarrow> listing list \<Rightarrow> listing list \<Rightarrow> listing list" where
  "filter_loop kws [] filtered = filtered"
| "filter_loop kws (job # jobs) filtered =
     (let txt = lower (title job @ '' '' @ company job)
      in if list_ex (\<lambda>k. str_in k txt) kws
         then filter_loop kws jobs (filtered @ [job])
         else filter_loop kws jobs filtered)"

definition filter_jobs_kw :: "string list \<Rightarrow> listing list \<Rightarrow> listing list" where
  "filter_jobs_kw kws jobs = filter_loop kws jobs []"

definition filter_jobs :: "listing list \<Rightarrow> listing list" where
  "filter_jobs jobs = filter_jobs_kw KEYWORDS jobs"

text \<open>
  The specification's reading of the filter: \<open>k\<close> is a case-insensitive substring of
  \<open>t\<close> when the lowered \<open>k\<close> is a contiguous sublist of the lowered \<open>t\<close>.
\<close>

definition ci_substring :: "string \<Rightarrow> string \<Rightarrow> bool" where
  "ci_substring k t = sublist (lower k) (lower t)"

definition passes :: "string list \<Rightarrow> listing \<Rightarrow> bool" where
  "passes K L = (\<exists>k \<in> set K. ci_substring k (title L @ '' '' @ company L))"

subsection \<open>Calendar dates (\<open>datetime.date\<close>)\<close>

text \<open>
  A \<open>datetime.date\<close> is its three fields. \<open>toordinal\<close> is the proleptic Gregorian
  ordinal of the library (1 for 0001-01-01), in which \<open>date - timedelta\<close> is computed;
  a date that results from such a subtraction is represented by its ordinal, and dates
  are compared through their ordinals.
\<close>

record date =
  year :: nat
  month :: nat
  day :: nat

definition is_leap :: "nat \<Rightarrow> bool" where
  "is_leap y = (if y mod 4 = 0 then (if y mod 100 = 0 then y mod 400 = 0 else True) else False)"

definition DAYS_IN_MONTH :: "nat list" where
  "DAYS_IN_MONTH = [0, 31, 28, 31, 30, 31, 30, 31, 31, 30, 31, 30, 31]"

definition DAYS_BEFORE_MONTH :: "nat list" where
  "DAYS_BEFORE_MONTH = [0, 0, 31, 59, 90, 120, 151, 181, 212, 243, 273, 304, 334]"

definition days_in_month :: "nat \<Rightarrow> nat \<Rightarrow> nat" where
  "days_in_month y m = (if m = 2 \<and> is_leap y then 29 else DAYS_IN_MONTH ! m)"

definition days_before_year :: "nat \<Rightarrow> int" where
  "days_before_year y =
     (let z = int y - 1 in z * 365 + z div 4 - z div 100 + z div 400)"

definition days_before_month :: "nat \<Rightarrow> nat \<Rightarrow> int" where
  "days_before_month y m =
     int (DAYS_BEFORE_MONTH ! m) + (if 2 < m \<and> is_leap y then 1 else 0)"

text \<open>The checks of the \<open>date\<close> constructor (\<open>MINYEAR = 1\<close>, \<open>MAXYEAR = 9999\<close>).\<close>

definition valid_date :: "date \<Rightarrow> bool" where
  "valid_date d =
     (1 \<le> year d \<and> year d \<le> 9999 \<and> 1 \<le> month d \<and> month d \<le> 12 \<and>
      1 \<le> day d \<and> day d \<le> days_in_month (year d) (month d))"

definition toordinal :: "date \<Rightarrow> int" where
  "toordinal d =
     days_before_year (year d) + days_before_month (year d) (month d) + int (day d)"

definition MAXORDINAL :: int where
  "MAXORDINAL = 3652059"

definition is_digit :: "char \<Rightarrow> bool" where
  "is_digit c = (CHR ''0'' \<le> c \<and> c \<le> CHR ''9'')"

definition digit_val :: "char \<Rightarrow> nat" where
  "digit_val c = of_char c - 48"

definition digit_char :: "nat \<Rightarrow> char" where
  "digit_char n = char_of (48 + n)"

text \<open>The number a run of decimal digits writes, most significant first.\<close>

definition digits_val :: "string \<Rightarrow> nat" where
  "digits_val s = foldl (\<lambda>n c. 10 * n + digit_val c) 0 s"

definition zero_pad2 :: "nat \<Rightarrow> string" where
  "zero_pad2 n = [digit_char (n div 10 mod 10), digit_char (n mod 10)]"

definition zero_pad4 :: "nat \<Rightarrow> string" where
  "zero_pad4 n =
     [digit_char (n div 1000 mod 10), digit_char (n div 100 mod 10),
      digit_char (n div 10 mod 10), digit_char (n mod 10)]"

text \<open>\<open>d.isoformat()\<close>: the format \<open>%04d-%02d-%02d\<close>.\<close>

definition isoformat :: "date \<Rightarrow> string" where
  "isoformat d = zero_pad4 (year d) @ ''-'' @ zero_pad2 (month d) @ ''-'' @ zero_pad2 (day d)"

text \<open>
  \<open>date.fromisoformat(s)\<close>, as the library of Python 3.11 reads it. The functions
  below follow the library's \<open>parse_digits\<close>, \<open>ord_to_ymd\<close>, \<open>iso_week1_monday\<close>,
  \<open>iso_to_ymd\<close> and \<open>parse_isoformat_date\<close>. A string of 7, 8 or 10 characters is
  read in one of the forms \<open>YYYY-MM-DD\<close>, \<open>YYYYMMDD\<close>, \<open>YYYY-Www\<close>, \<open>YYYYWww\<close>,
  \<open>YYYY-Www-D\<close> and \<open>YYYYWwwD\<close> (the last four name a week of the ISO calendar and a
  day of it); what follows a complete date within the 10 characters is not read.
  Then come the checks of the \<open>date\<close> constructor. Anything else raises
  \<open>ValueError\<close>. (Before Python 3.11 only the form \<open>YYYY-MM-DD\<close> was read.)
\<close>

text \<open>The number written by the first \<open>n\<close> characters, which must be digits.\<close>

definition parse_digits :: "string \<Rightarrow> nat \<Rightarrow> nat option" where
  "parse_digits s n =
     (if n \<le> length s \<and> list_all is_digit (take n s) then Some (digits_val (take n s))
      else None)"

text \<open>The date of an ordinal, through the cycles of 400, 100, 4 and 1 years.\<close>

definition ord_to_ymd :: "nat \<Rightarrow> date" where
  "ord_to_ymd ordinal =
     (let n = ordinal - 1;
          n400 = n div 146097; r400 = n mod 146097;
          n100 = r400 div 36524; r100 = r400 mod 36524;
          n4 = r100 div 1461; r4 = r100 mod 1461;
          n1 = r4 div 365; r = r4 mod 365;
          y = n400 * 400 + 1 + n100 * 100 + n4 * 4 + n1
      in if n1 = 4 \<or> n100 = 4 then \<lparr>year = y - 1, month = 12, day = 31\<rparr>
         else (let leapyear = (n1 = 3 \<and> (n4 \<noteq> 24 \<or> n100 = 3));
                   m = (r + 50) div 32;
                   preceding = DAYS_BEFORE_MONTH ! m + (if 2 < m \<and> leapyear then 1 else 0)
               in if r < preceding
                  then \<lparr>year = y, month = m - 1,
                        day = r - (preceding - days_in_month y (m - 1)) + 1\<rparr>
                  else \<lparr>year = y, month = m, day = r - preceding + 1\<rparr>))"

text \<open>The ordinal of the Monday that starts week 1 of the ISO year.\<close>

definition iso_week1_monday :: "nat \<Rightarrow> int" where
  "iso_week1_monday y =
     (let first_day = toordinal \<lparr>year = y, month = 1, day = 1\<rparr>;
          first_weekday = (first_day + 6) mod 7;
          week1_monday = first_day - first_weekday
      in if 3 < first_weekday then week1_monday + 7 else week1_monday)"

text \<open>
  The date of a day of an ISO week. Week 53 exists in a year that starts on a
  Thursday, and in a leap year that starts on a Wednesday. For the year \<open>0000\<close> no
  week gives a date.
\<close>

definition iso_to_ymd :: "nat \<Rightarrow> nat \<Rightarrow> nat \<Rightarrow> date option" where
  "iso_to_ymd iso_year iso_week iso_day =
     (let first_weekday = (toordinal \<lparr>year = iso_year, month = 1, day = 1\<rparr> + 6) mod 7
      in if iso_year < 1 then None
         else if (iso_week \<le> 0 \<or> 53 \<le> iso_week) \<and>
                 \<not> (iso_week = 53 \<and>
                    (first_weekday = 3 \<or> first_weekday = 2 \<and> is_leap iso_year))
         then None
         else if iso_day \<le> 0 \<or> 8 \<le> iso_day then None
         else Some (ord_to_ymd
                 (nat (iso_week1_monday iso_year + (int iso_week - 1) * 7 + int iso_day - 1))))"

definition parse_isoformat_date :: "string \<Rightarrow> date option" where
  "parse_isoformat_date dtstr =
     (case parse_digits dtstr 4 of
        None \<Rightarrow> None
      | Some y \<Rightarrow>
          (let uses_separator = (take 1 (drop 4 dtstr) = ''-'');
               p = (if uses_separator then 5 else 4)
           in if take 1 (drop p dtstr) = ''W''
              then (case parse_digits (drop (p + 1) dtstr) 2 of
                      None \<Rightarrow> None
                    | Some iso_week \<Rightarrow>
                        if p + 3 < length dtstr
                        then (if uses_separator \<and> take 1 (drop (p + 3) dtstr) \<noteq> ''-''
                              then None
                              else (case parse_digits
                                           (drop (if uses_separator then p + 4 else p + 3) dtstr) 1 of
                                      None \<Rightarrow> None
                                    | Some iso_day \<Rightarrow> iso_to_ymd y iso_week iso_day))
                        else iso_to_ymd y iso_week 1)
              else (case parse_digits (drop p dtstr) 2 of
                      None \<Rightarrow> None
                    | Some m \<Rightarrow>
                        if uses_separator \<and> take 1 (drop (p + 2) dtstr) \<noteq> ''-''
                        then None
                        else (case parse_digits
                                     (drop (if uses_separator then p + 3 else p + 2) dtstr) 2 of
                                None \<Rightarrow> None
                              | Some d \<Rightarrow> Some \<lparr>year = y, month = m, day = d\<rparr>))))"

definition fromisoformat :: "string \<Rightarrow> error + date" where
  "fromisoformat s =
     (if length s = 7 \<or> length s = 8 \<or> length s = 10
      then (case parse_isoformat_date s of
              None \<Rightarrow> Inl ValueError
            | Some d \<Rightarrow> if valid_date d then Inr d else Inl ValueError)
      else Inl ValueError)"

text \<open>
  \<open>today - datetime.timedelta(days=n)\<close>, as an ordinal: \<open>timedelta\<close> refuses more
  than 999999999 days and the subtraction refuses a result outside the range of
  \<open>date\<close>, both with \<open>OverflowError\<close>.
\<close>

definition date_minus_days :: "date \<Rightarrow> int \<Rightarrow> error + int" where
  "date_minus_days d n =
     (if \<bar>n\<bar> > 999999999 then Inl OverflowError
      else (let ordinal = toordinal d - n
            in if 0 < ordinal \<and> ordinal \<le> MAXORDINAL then Inr ordinal else Inl OverflowError))"

subsection \<open>The history file (\<open>load_history\<close>, \<open>save_history\<close>)\<close>

text \<open>
  The History is a \<open>dict\<close> from day-key to the list of that day's jobs.
  \<open>dict_set d k v\<close> is \<open>d[k] = v\<close>: an existing key keeps its place, a new one is
  appended.
\<close>

type_synonym history = "(string \<times> listing list) list"

fun dict_set :: "(string \<times> 'v) list \<Rightarrow> string \<Rightarrow> 'v \<Rightarrow> (string \<times> 'v) list" where
  "dict_set [] k v = [(k, v)]"
| "dict_set ((k', v') # d) k v = (if k' = k then (k, v) # d else (k', v') # dict_set d k v)"

text \<open>
  The file holds a JSON document. \<open>json.dump\<close> and \<open>json.load\<close> are modelled on
  documents, not on their text: \<open>json_dump\<close> is the document \<open>json.dump\<close> writes for
  a History, \<open>py_dict\<close> is the \<open>dict\<close> the decoder builds from the members of an
  object (a repeated name keeps its first place and its last value).
\<close>

datatype json =
  JString string | JArray "json list" | JObject "(string \<times> json) list" |
  JNumber int | JBool bool | JNull

definition HISTORY_FILE :: string where
  "HISTORY_FILE = ''jobs_history.json''"

definition DAYS_TO_KEEP :: int where
  "DAYS_TO_KEEP = 30"

definition listing_to_json :: "listing \<Rightarrow> json" where
  "listing_to_json job =
     JObject [(''title'', JString (title job)), (''company'', JString (company job)),
              (''link'', JString (link job)), (''source'', JString (source job))]"

definition json_dump :: "history \<Rightarrow> json" where
  "json_dump h = JObject (map (\<lambda>(dkey, jobs). (dkey, JArray (map listing_to_json jobs))) h)"

definition py_dict :: "(string \<times> 'v) list \<Rightarrow> (string \<times> 'v) list" where
  "py_dict members = foldl (\<lambda>d (k, v). dict_set d k v) [] members"

text \<open>
  The values \<open>json.load\<close> returns are untyped; the model reads them at the type of the
  History. \<open>listing_of_json\<close> and \<open>history_of_json\<close> are \<open>None\<close> on a document that
  is not a job dictionary with exactly the four string fields, or not an object of
  arrays of such.
\<close>

fun those_map :: "('a \<Rightarrow> 'b option) \<Rightarrow> 'a list \<Rightarrow> 'b list option" where
  "those_map f [] = Some []"
| "those_map f (x # xs) =
     (case f x of None \<Rightarrow> None
      | Some y \<Rightarrow> (case those_map f xs of None \<Rightarrow> None | Some ys \<Rightarrow> Some (y # ys)))"

definition listing_of_json :: "json \<Rightarrow> listing option" where
  "listing_of_json j =
     (case j of
        JObject members \<Rightarrow>
          (let d = py_dict members
           in case (map_of d ''title'', map_of d ''company'', map_of d ''link'', map_of d ''source'') of
                (Some (JString t), Some (JString c), Some (JString l), Some (JString s)) \<Rightarrow>
                  if length d = 4
                  then Some \<lparr>title = t, company = c, link = l, source = s\<rparr>
                  else None
              | _ \<Rightarrow> None)
      | _ \<Rightarrow> None)"

definition day_of_json :: "string \<times> json \<Rightarrow> (string \<times> listing list) option" where
  "day_of_json m =
     (case snd m of
        JArray js \<Rightarrow> (case those_map listing_of_json js of
                        None \<Rightarrow> None | Some jobs \<Rightarrow> Some (fst m, jobs))
      | _ \<Rightarrow> None)"

definition history_of_json :: "json \<Rightarrow> history option" where
  "history_of_json j =
     (case j of JObject members \<Rightarrow> those_map day_of_json (py_dict members) | _ \<Rightarrow> None)"

text \<open>
  The state a run reads and writes: the two files (\<open>None\<close> when a file does not
  exist) and the lines printed.
\<close>

record world =
  history_file :: "json option"
  index_html :: "string option"
  stdout :: "string list"

text \<open>
  \<open>load_history\<close>: the empty History when the file does not exist. A document that
  is not a History is outside the data model; the model raises \<open>TypeError\<close> for it
  at once, where Python would at the first use of the value as a History.
\<close>

definition load_history :: "world \<Rightarrow> error + history" where
  "load_history w =
     (case history_file w of
        None \<Rightarrow> Inr []
      | Some doc \<Rightarrow> (case history_of_json doc of None \<Rightarrow> Inl TypeError | Some h \<Rightarrow> Inr h))"

definition save_history :: "history \<Rightarrow> world \<Rightarrow> world" where
  "save_history h w = w\<lparr>history_file := Some (json_dump h)\<rparr>"

subsection \<open>Updating the history (\<open>update_history\<close>)\<close>

text \<open>
  The dictionary comprehension of \<open>update_history\<close>: every key is parsed, which
  raises \<open>ValueError\<close> on a key that is not an ISO date, and an entry is kept when
  its date is not before the cutoff.
\<close>

fun prune :: "int \<Rightarrow> history \<Rightarrow> error + history" where
  "prune cutoff [] = Inr []"
| "prune cutoff ((dkey, jobs) # rest) =
     (case fromisoformat dkey of
        Inl e \<Rightarrow> Inl e
      | Inr d \<Rightarrow>
          (case prune cutoff rest of
             Inl e \<Rightarrow> Inl e
           | Inr kept \<Rightarrow> Inr (if cutoff \<le> toordinal d then (dkey, jobs) # kept else kept)))"

text \<open>
  \<open>update_history\<close>, with the clock's date \<open>today\<close> and the retention \<open>n\<close> (the
  global \<open>DAYS_TO_KEEP\<close> in the source) as arguments. It returns the History and
  the state after \<open>save_history\<close>; when it raises, nothing has been written.
\<close>

definition update_history_days ::
  "int \<Rightarrow> date \<Rightarrow> listing list \<Rightarrow> world \<Rightarrow> error + (history \<times> world)" where
  "update_history_days n today today_jobs w =
     (let today_str = isoformat today
      in case load_history w of
           Inl e \<Rightarrow> Inl e
         | Inr loaded \<Rightarrow>
             (let history = dict_set loaded today_str today_jobs
              in case date_minus_days today n of
                   Inl e \<Rightarrow> Inl e
                 | Inr cutoff \<Rightarrow>
                     (case prune cutoff history of
                        Inl e \<Rightarrow> Inl e
                      | Inr kept \<Rightarrow> Inr (kept, save_history kept w))))"

definition update_history :: "date \<Rightarrow> listing list \<Rightarrow> world \<Rightarrow> error + (history \<times> world)" where
  "update_history today today_jobs w = update_history_days DAYS_TO_KEEP today today_jobs w"

text \<open>
  For stating the properties: a key is valid when \<open>fromisoformat\<close> accepts it, and
  \<open>key_ordinal\<close> is then the ordinal of its date.
\<close>

definition valid_key :: "string \<Rightarrow> bool" where
  "valid_key k = (case fromisoformat k of Inl e \<Rightarrow> False | Inr d \<Rightarrow> True)"

definition key_ordinal :: "string \<Rightarrow> int" where
  "key_ordinal k = (case fromisoformat k of Inl e \<Rightarrow> 0 | Inr d \<Rightarrow> toordinal d)"

text \<open>
  A day-key in the form \<open>YYYY-MM-DD\<close>: the key is what \<open>isoformat\<close> writes for the
  date it names. These are the keys \<open>update_history\<close> itself adds.
\<close>

definition ymd_key :: "string \<Rightarrow> bool" where
  "ymd_key k = (case fromisoformat k of Inl e \<Rightarrow> False | Inr d \<Rightarrow> k = isoformat d)"

text \<open>A state in which neither file exists and nothing has been printed.\<close>

definition fresh_world :: world where
  "fresh_world = \<lparr>history_file = None, index_html = None, stdout = []\<rparr>"

subsection \<open>Parsed pages (\<open>BeautifulSoup\<close>)\<close>

text \<open>
  A parsed page is a tree: a text node, or a tag with its name, its classes (the
  list-valued \<open>class\<close> attribute), its other attributes and its children. The
  selectors the adapters use are a tag name with an optional class.
\<close>

datatype node =
  Text string
| Tag string "string list" "(string \<times> string) list" "node list"

type_synonym selector = "string \<times> string option"

fun matches :: "selector \<Rightarrow> node \<Rightarrow> bool" where
  "matches sel (Text s) = False"
| "matches sel (Tag nm classes attrs kids) =
     (nm = fst sel \<and> (case snd sel of None \<Rightarrow> True | Some c \<Rightarrow> c \<in> set classes))"

text \<open>The nodes below a node, in document order.\<close>

fun descendants :: "node \<Rightarrow> node list" where
  "descendants (Text s) = []"
| "descendants (Tag nm classes attrs kids) = concat (map (\<lambda>k. k # descendants k) kids)"

text \<open>\<open>tag.select(sel)\<close>, \<open>tag.find_all(name)\<close> and \<open>tag.select_one(sel)\<close>.\<close>

definition select :: "selector \<Rightarrow> node \<Rightarrow> node list" where
  "select sel n = filter (matches sel) (descendants n)"

definition select_one :: "selector \<Rightarrow> node \<Rightarrow> node option" where
  "select_one sel n = (case select sel n of [] \<Rightarrow> None | x # xs \<Rightarrow> Some x)"

text \<open>
  \<open>tag.select("a b")\<close>: the nodes below \<open>tag\<close> that match \<open>b\<close> and have an ancestor
  matching \<open>a\<close>; \<open>inside\<close> says that such an ancestor has been passed.
\<close>

fun select_under :: "selector \<Rightarrow> selector \<Rightarrow> bool \<Rightarrow> node \<Rightarrow> node list" where
  "select_under a b inside (Text s) = []"
| "select_under a b inside (Tag nm classes attrs kids) =
     concat (map (\<lambda>k. (if (inside \<or> matches a (Tag nm classes attrs kids)) \<and> matches b k
                         then [k] else [])
                       @ select_under a b (inside \<or> matches a (Tag nm classes attrs kids)) k)
                 kids)"

definition is_space :: "char \<Rightarrow> bool" where
  "is_space c = (c \<in> set [CHR 0x20, CHR 0x09, CHR 0x0A, CHR 0x0B, CHR 0x0C, CHR 0x0D,
                           CHR 0x1C, CHR 0x1D, CHR 0x1E, CHR 0x1F])"

text \<open>\<open>s.strip()\<close>\<close>

definition strip :: "string \<Rightarrow> string" where
  "strip s = rev (dropWhile is_space (rev (dropWhile is_space s)))"

text \<open>
  \<open>tag.get_text(strip=True)\<close>: the stripped strings below the tag, joined. The
  text nodes of the model are the strings \<open>get_text\<close> reads; comments and the
  contents of \<open>script\<close> and \<open>style\<close> elements, which it leaves out, are not nodes
  of the tree.
\<close>

fun get_text :: "node \<Rightarrow> string" where
  "get_text (Text s) = strip s"
| "get_text (Tag nm classes attrs kids) = concat (map get_text kids)"

text \<open>The attribute dictionary of a tag, read by \<open>tag[name]\<close> and \<open>tag.get(name, default)\<close>.\<close>

fun attr :: "node \<Rightarrow> string \<Rightarrow> string option" where
  "attr (Text s) name = None"
| "attr (Tag nm classes attrs kids) name = map_of attrs name"

definition attr_get :: "node \<Rightarrow> string \<Rightarrow> string \<Rightarrow> string" where
  "attr_get n name dflt = (case attr n name of None \<Rightarrow> dflt | Some v \<Rightarrow> v)"

subsection \<open>Source-specific parsers\<close>

text \<open>
  The body of each adapter's loop, for one element: \<open>Inl\<close> when it raises,
  \<open>Inr None\<close> when the element is passed over, \<open>Inr (Some job)\<close> when a job is
  appended. \<open>for_each\<close> is the loop, with the list \<open>jobs\<close> built so far.
\<close>

fun for_each :: "('a \<Rightarrow> error + listing option) \<Rightarrow> 'a list \<Rightarrow> listing list \<Rightarrow> error + listing list" where
  "for_each body [] jobs = Inr jobs"
| "for_each body (x # xs) jobs =
     (case body x of
        Inl e \<Rightarrow> Inl e
      | Inr None \<Rightarrow> for_each body xs jobs
      | Inr (Some job) \<Rightarrow> for_each body xs (jobs @ [job]))"

definition indeed_card :: "node \<Rightarrow> error + listing option" where
  "indeed_card elt =
     (case select_one (''h2'', None) elt of
        None \<Rightarrow> Inl AttributeError
      | Some h2 \<Rightarrow>
          (let t = get_text h2;
               c = (case select_one (''span'', Some ''companyName'') elt of
                      Some tag \<Rightarrow> get_text tag | None \<Rightarrow> ''Unknown'')
           in case select_one (''a'', None) elt of
                None \<Rightarrow> Inl TypeError
              | Some a \<Rightarrow>
                  (case attr a ''href'' of
                     None \<Rightarrow> Inl KeyError
                   | Some href \<Rightarrow>
                       Inr (Some \<lparr>title = t, company = c,
                                  link = ''https://www.indeed.com'' @ href,
                                  source = ''Indeed''\<rparr>))))"

definition zip_card :: "node \<Rightarrow> error + listing option" where
  "zip_card elt =
     (case select_one (''a'', None) elt of
        None \<Rightarrow> Inr None
      | Some title_tag \<Rightarrow>
          (let t = get_text title_tag
           in case attr title_tag ''href'' of
                None \<Rightarrow> Inl KeyError
              | Some href \<Rightarrow>
                  (let l = (if prefix ''http'' href then href
                            else ''https://www.ziprecruiter.com'' @ href);
                       c = (case select_one (''a'', Some ''t_org_link'') elt of
                              Some tag \<Rightarrow> get_text tag | None \<Rightarrow> ''Unknown'')
                   in Inr (Some \<lparr>title = t, company = c, link = l,
                                  source = ''ZipRecruiter''\<rparr>))))"

definition pcc_row :: "string \<Rightarrow> node \<Rightarrow> error + listing option" where
  "pcc_row url row =
     (let cols = select (''td'', None) row
      in if length cols \<ge> 2
         then Inr (Some \<lparr>title = get_text (cols ! 0), company = get_text (cols ! 1),
                        link = url, source = ''PilotCareerCenter''\<rparr>)
         else Inr None)"

definition glassdoor_card :: "node \<Rightarrow> error + listing option" where
  "glassdoor_card elt =
     Inr (Some \<lparr>title = attr_get elt ''data-normalize-job-title'' ''Pilot Job'',
                company = attr_get elt ''data-company'' ''Unknown'',
                link = ''https://www.glassdoor.com'' @ attr_get elt ''data-link'' [],
                source = ''Glassdoor''\<rparr>)"

text \<open>
  An adapter takes \<open>get\<close>, the network and the parser together: the parsed page of a
  URL, or the exception \<open>requests.get\<close> raises.
\<close>

type_synonym web = "string \<Rightarrow> error + node"

definition fetch_indeed :: "web \<Rightarrow> string \<Rightarrow> error + listing list" where
  "fetch_indeed get url =
     (case get url of
        Inl e \<Rightarrow> Inl e
      | Inr soup \<Rightarrow> for_each indeed_card (select (''div'', Some ''job_seen_beacon'') soup) [])"

definition fetch_zip :: "web \<Rightarrow> string \<Rightarrow> error + listing list" where
  "fetch_zip get url =
     (case get url of
        Inl e \<Rightarrow> Inl e
      | Inr soup \<Rightarrow> for_each zip_card (select (''article'', Some ''job_content'') soup) [])"

definition fetch_pilotcareercenter :: "web \<Rightarrow> string \<Rightarrow> error + listing list" where
  "fetch_pilotcareercenter get url =
     (case get url of
        Inl e \<Rightarrow> Inl e
      | Inr soup \<Rightarrow>
          for_each (pcc_row url) (select_under (''table'', None) (''tr'', None) False soup) [])"

definition fetch_glassdoor :: "web \<Rightarrow> string \<Rightarrow> error + listing list" where
  "fetch_glassdoor get url =
     (case get url of
        Inl e \<Rightarrow> Inl e
      | Inr soup \<Rightarrow> for_each glassdoor_card (select (''li'', Some ''react-job-listing'') soup) [])"

subsection \<open>HTML output (\<open>generate_html\<close>)\<close>

text \<open>
  Text written to a file or printed is the UTF-8 text of the source's literals: the
  apostrophe of the attribute quotes, the right single quotation mark, the em dash
  and the check mark are given by their bytes.
\<close>

definition apos :: string where
  "apos = [CHR 0x27]"

definition rsquo :: string where
  "rsquo = [CHR 0xE2, CHR 0x80, CHR 0x99]"

definition mdash :: string where
  "mdash = [CHR 0xE2, CHR 0x80, CHR 0x94]"

definition check_mark :: string where
  "check_mark = [CHR 0xE2, CHR 0x9C, CHR 0x85]"

text \<open>\<open>str(n)\<close> for a natural number.\<close>

fun dec :: "nat \<Rightarrow> string" where
  "dec n = (if n < 10 then [digit_char n] else dec (n div 10) @ [digit_char (n mod 10)])"

declare dec.simps [simp del]

definition MONTH_NAMES :: "string list" where
  "MONTH_NAMES = ['''', ''January'', ''February'', ''March'', ''April'', ''May'', ''June'',
     ''July'', ''August'', ''September'', ''October'', ''November'', ''December'']"

text \<open>\<open>d.strftime("%B %d, %Y")\<close>\<close>

definition strftime_BdY :: "date \<Rightarrow> string" where
  "strftime_BdY d =
     MONTH_NAMES ! month d @ '' '' @ zero_pad2 (day d) @ '', '' @ dec (year d)"

text \<open>The list item both loops over jobs append.\<close>

definition job_li :: "listing \<Rightarrow> string" where
  "job_li job =
     ''<li><a href='' @ apos @ link job @ apos @ '' target='' @ apos @ ''_blank'' @ apos @ ''>''
     @ title job @ ''</a> '' @ mdash @ '' '' @ company job @ '' ('' @ source job @ '')</li>''"

fun jobs_loop :: "listing list \<Rightarrow> string \<Rightarrow> string" where
  "jobs_loop [] html = html"
| "jobs_loop (job # jobs) html = jobs_loop jobs (html @ job_li job)"

text \<open>
  \<open>sorted(history.items(), reverse=True)\<close>: the items by descending key, the keys
  compared as Python compares strings, character by character. The keys of a
  \<open>dict\<close> are distinct, so the values are never compared.
\<close>

definition sorted_items_reverse :: "history \<Rightarrow> history" where
  "sorted_items_reverse h = rev (sort_key fst h)"

fun days_loop :: "history \<Rightarrow> string \<Rightarrow> string" where
  "days_loop [] html = html"
| "days_loop ((dkey, jobs) # rest) html =
     days_loop rest (jobs_loop jobs (html @ ''<h3>'' @ dkey @ ''</h3><ul>'') @ ''</ul>'')"

definition html_text :: "date \<Rightarrow> listing list \<Rightarrow> history \<Rightarrow> string" where
  "html_text today today_jobs history =
     (let html0 = ''<html><head><title>Phoenix Pilot Jobs</title></head><body>'';
          html1 = html0 @ ''<h1>Phoenix Low-Time Pilot Jobs</h1><p>Updated ''
                    @ strftime_BdY today @ ''</p>'';
          html2 = html1 @ ''<h2>Today'' @ rsquo @ ''s Jobs</h2><ul>'';
          html3 = (if today_jobs \<noteq> [] then jobs_loop today_jobs html2
                   else html2 @ ''<li>No new jobs found today.</li>'');
          html4 = html3 @ ''</ul>'';
          html5 = html4 @ ''<h2>Job History (Last 30 Days)</h2>'';
          html6 = days_loop (sorted_items_reverse history) html5
      in html6 @ ''</body></html>'')"

definition generate_html :: "date \<Rightarrow> listing list \<Rightarrow> history \<Rightarrow> world \<Rightarrow> world" where
  "generate_html today today_jobs history w =
     w\<lparr>index_html := Some (html_text today today_jobs history)\<rparr>"




subsection \<open>Main\<close>

definition JOB_SOURCES :: "(string \<times> string) list" where
  "JOB_SOURCES =
     [(''Indeed'', ''https://www.indeed.com/jobs?q=pilot+caravan+pc-12+cargo&l=Phoenix%2C+AZ''),
      (''ZipRecruiter'', ''https://www.ziprecruiter.com/candidate/search?search=pilot&location=Phoenix%2C+AZ''),
      (''PilotCareerCenter'', ''https://pilotcareercenter.com/PHOENIX-PILOT-JOBS/KIWA-KDVT-KPHX-KSDL''),
      (''Glassdoor'', ''https://www.glassdoor.com/Job/phoenix-pilot-jobs-SRCH_IL.0,7_IC1133904_KO8,13.htm'')]"

text \<open>\<open>JOB_SOURCES[name]\<close>\<close>

definition source_url :: "string \<Rightarrow> error + string" where
  "source_url name = (case map_of JOB_SOURCES name of None \<Rightarrow> Inl KeyError | Some url \<Rightarrow> Inr url)"

text \<open>One line of \<open>main\<close>: \<open>all_jobs.extend(fetch(JOB_SOURCES[name]))\<close>.\<close>

definition extend_from ::
  "(web \<Rightarrow> string \<Rightarrow> error + listing list) \<Rightarrow> web \<Rightarrow> string \<Rightarrow> listing list \<Rightarrow> error + listing list" where
  "extend_from fetch get name all_jobs =
     (case source_url name of
        Inl e \<Rightarrow> Inl e
      | Inr url \<Rightarrow> (case fetch get url of Inl e \<Rightarrow> Inl e | Inr jobs \<Rightarrow> Inr (all_jobs @ jobs)))"

text \<open>The first five lines of \<open>main\<close>: the pooled jobs of the four sources.\<close>

definition fetch_all :: "web \<Rightarrow> error + listing list" where
  "fetch_all get =
     (case extend_from fetch_indeed get ''Indeed'' [] of
        Inl e \<Rightarrow> Inl e
      | Inr jobs1 \<Rightarrow>
     (case extend_from fetch_zip get ''ZipRecruiter'' jobs1 of
        Inl e \<Rightarrow> Inl e
      | Inr jobs2 \<Rightarrow>
     (case extend_from fetch_pilotcareercenter get ''PilotCareerCenter'' jobs2 of
        Inl e \<Rightarrow> Inl e
      | Inr jobs3 \<Rightarrow> extend_from fetch_glassdoor get ''Glassdoor'' jobs3)))"

definition summary :: "listing list \<Rightarrow> history \<Rightarrow> string" where
  "summary today_jobs history =
     check_mark @ '' Saved '' @ dec (length today_jobs) @ '' new jobs, ''
     @ dec (length history) @ '' days in archive.''"

text \<open>
  \<open>main\<close>, in the state \<open>w\<close>, with the network \<open>get\<close> and the clock's date
  \<open>today\<close>. An exception leaves \<open>main\<close> as it was raised: the source has no
  handler. Every exception of the model is raised before the first write.
\<close>

definition main :: "web \<Rightarrow> date \<Rightarrow> world \<Rightarrow> error + world" where
  "main get today w =
     (case fetch_all get of
        Inl e \<Rightarrow> Inl e
      | Inr all_jobs \<Rightarrow>
          (let today_jobs = filter_jobs all_jobs
           in case update_history today today_jobs w of
                Inl e \<Rightarrow> Inl e
              | Inr (history, w1) \<Rightarrow>
                  (let w2 = generate_html today today_jobs history w1
                   in Inr (w2\<lparr>stdout := stdout w2 @ [summary today_jobs history]\<rparr>))))"

text \<open>
  A scenario for the examples below: the clock says 2026-11-03 and the History
  holds one entry (without jobs) for each of the 35 days before.
\<close>

definition scenario_today :: date where
  "scenario_today = \<lparr>year = 2026, month = 11, day = 3\<rparr>"

definition scenario_history :: history where
  "scenario_history =
     [(''2026-09-29'', []),
      (''2026-09-30'', []),
      (''2026-10-01'', []),
      (''2026-10-02'', []),
      (''2026-10-03'', []),
      (''2026-10-04'', []),
      (''2026-10-05'', []),
      (''2026-10-06'', []),
      (''2026-10-07'', []),
      (''2026-10-08'', []),
      (''2026-10-09'', []),
      (''2026-10-10'', []),
      (''2026-10-11'', []),
      (''2026-10-12'', []),
      (''2026-10-13'', []),
      (''2026-10-14'', []),
      (''2026-10-15'', []),
      (''2026-10-16'', []),
      (''2026-10-17'', []),
      (''2026-10-18'', []),
      (''2026-10-19'', []),
      (''2026-10-20'', []),
      (''2026-10-21'', []),
      (''2026-10-22'', []),
      (''2026-10-23'', []),
      (''2026-10-24'', []),
      (''2026-10-25'', []),
      (''2026-10-26'', []),
      (''2026-10-27'', []),
      (''2026-10-28'', []),
      (''2026-10-29'', []),
      (''2026-10-30'', []),
      (''2026-10-31'', []),
      (''2026-11-01'', []),
      (''2026-11-02'', [])]"

subsection \<open>Sample pages\<close>

text \<open>The URL of a source, for stating the properties of \<open>main\<close>.\<close>

definition url_of :: "string \<Rightarrow> string" where
  "url_of name = (case map_of JOB_SOURCES name of None \<Rightarrow> [] | Some url \<Rightarrow> url)"

text \<open>
  Sample pages. The first Indeed card has no \<open>h2\<close>; the second is complete but has
  no company. The first ZipRecruiter card has no link at all, the second has one
  without a company. The table has a header row of one cell and a row of two. The
  Glassdoor item has no attributes.
\<close>

definition indeed_card_no_h2 :: node where
  "indeed_card_no_h2 =
     Tag ''div'' [''job_seen_beacon''] [] [Tag ''a'' [] [(''href'', ''/job/2'')] [Text ''Cargo Pilot'']]"

definition indeed_card_ok :: node where
  "indeed_card_ok =
     Tag ''div'' [''job_seen_beacon''] []
       [Tag ''h2'' [] [] [Tag ''a'' [] [(''href'', ''/job/1'')] [Text '' Caravan Pilot '']]]"

definition indeed_page :: node where
  "indeed_page = Tag ''[document]'' [] [] [indeed_card_no_h2, indeed_card_ok]"

definition indeed_page_ok :: node where
  "indeed_page_ok = Tag ''[document]'' [] [] [indeed_card_ok]"

definition zip_card_no_link :: node where
  "zip_card_no_link = Tag ''article'' [''job_content''] [] [Text ''Sponsored'']"

definition zip_card_ok :: node where
  "zip_card_ok =
     Tag ''article'' [''job_content''] [] [Tag ''a'' [] [(''href'', ''/jobs/3'')] [Text ''Cargo Pilot'']]"

definition zip_page :: node where
  "zip_page = Tag ''[document]'' [] [] [zip_card_no_link, zip_card_ok]"

definition pcc_row_ok :: node where
  "pcc_row_ok =
     Tag ''tr'' [] [] [Tag ''td'' [] [] [Text ''PC-12 Captain''], Tag ''td'' [] [] [Text ''AirCo'']]"

definition pcc_page :: node where
  "pcc_page =
     Tag ''[document]'' [] []
       [Tag ''table'' [] [] [Tag ''tr'' [] [] [Tag ''td'' [] [] [Text ''Jobs'']], pcc_row_ok]]"

definition glassdoor_item :: node where
  "glassdoor_item = Tag ''li'' [''react-job-listing''] [] []"

definition glassdoor_page :: node where
  "glassdoor_page = Tag ''[document]'' [] [] [glassdoor_item]"

text \<open>
  A network in which the source \<open>failing\<close> cannot be reached and the others return
  their sample page.
\<close>

definition sample_web :: "string \<Rightarrow> web" where
  "sample_web failing url =
     (if url = url_of failing then Inl ConnectionError
      else if url = url_of ''Indeed'' then Inr indeed_page_ok
      else if url = url_of ''ZipRecruiter'' then Inr zip_page
      else if url = url_of ''PilotCareerCenter'' then Inr pcc_page
      else if url = url_of ''Glassdoor'' then Inr glassdoor_page
      else Inl ConnectionError)"

text \<open>The jobs the sample pages give.\<close>

definition job_indeed :: listing where
  "job_indeed = \<lparr>title = ''Caravan Pilot'', company = ''Unknown'',
                  link = ''https://www.indeed.com/job/1'', source = ''Indeed''\<rparr>"

definition job_zip :: listing where
  "job_zip = \<lparr>title = ''Cargo Pilot'', company = ''Unknown'',
               link = ''https://www.ziprecruiter.com/jobs/3'', source = ''ZipRecruiter''\<rparr>"

definition job_pcc :: listing where
  "job_pcc = \<lparr>title = ''PC-12 Captain'', company = ''AirCo'',
               link = url_of ''PilotCareerCenter'', source = ''PilotCareerCenter''\<rparr>"

definition job_glassdoor :: listing where
  "job_glassdoor = \<lparr>title = ''Pilot Job'', company = ''Unknown'',
                     link = ''https://www.glassdoor.com'', source = ''Glassdoor''\<rparr>"

subsection \<open>Facts about the filter\<close>

lemma str_in_sublist: "str_in k t = sublist k t"
  by (induction t) (auto simp: sublist_Cons_right)

lemma filter_loop_eq:
  "filter_loop kws jobs acc =
     acc @ filter (\<lambda>L. \<exists>k \<in> set kws. str_in k (lower (title L @ '' '' @ company L))) jobs"
  by (induction jobs arbitrary: acc) (simp_all add: list_ex_iff Let_def)

lemma keywords_lower: "list_all (\<lambda>k. lower k = k) KEYWORDS"
  by (simp add: KEYWORDS_def lower_def lower_char_def)

lemma filter_jobs_kw_passes:
  assumes "list_all (\<lambda>k. lower k = k) K"
  shows "filter_jobs_kw K jobs = filter (passes K) jobs"
proof -
  have "(\<exists>k \<in> set K. str_in k (lower (title L @ '' '' @ company L))) = passes K L" for L
    using assms by (auto simp: passes_def ci_substring_def str_in_sublist list_all_iff)
  then show ?thesis
    by (simp add: filter_jobs_kw_def filter_loop_eq)
qed

text \<open>
  The keywords are compared as they are written: only the job's text is lowered. A
  keyword with a capital letter matches nothing.
\<close>

lemma filter_jobs_kw_capital_keyword:
  "filter_jobs_kw [''Caravan'']
     [\<lparr>title = ''Caravan Pilot'', company = ''AirCo'', link = ''https://a'', source = ''Indeed''\<rparr>]
   = []"
  by (simp add: filter_jobs_kw_def lower_def lower_char_def char_of_def)

text \<open>
  Claim C2. For every list of jobs and every keyword set \<open>K\<close> (a sequence of lowercase
  substrings, as the specification defines the keyword set and as \<open>KEYWORDS\<close> is),
  the filter returns the jobs \<open>L\<close> for which some \<open>k\<close> in \<open>K\<close> is a case-insensitive
  substring of \<open>L.title + " " + L.company\<close>, in their order; the result is a
  subsequence of the input; for the empty \<open>K\<close> it is empty; and \<open>filter_jobs\<close>, which
  filters with \<open>KEYWORDS\<close>, is the instance for \<open>KEYWORDS\<close>.
\<close>

theorem filter_jobs_keyword_filter:
  assumes "list_all (\<lambda>k. lower k = k) K"
  shows "filter_jobs_kw K jobs = filter (passes K) jobs
         \<and> subseq (filter_jobs_kw K jobs) jobs
         \<and> filter_jobs_kw [] jobs = []
         \<and> filter_jobs jobs = filter (passes KEYWORDS) jobs"
proof -
  have "filter_jobs_kw [] jobs = []"
    by (simp add: filter_jobs_kw_def filter_loop_eq)
  moreover have "subseq (filter_jobs_kw K jobs) jobs"
    by (simp add: filter_jobs_kw_passes[OF assms])
  moreover have "filter_jobs jobs = filter (passes KEYWORDS) jobs"
    by (simp add: filter_jobs_def filter_jobs_kw_passes[OF keywords_lower])
  ultimately show ?thesis
    using filter_jobs_kw_passes[OF assms] by simp
qed

theorem filter_jobs_keyword_filter_witness:
  "list_all (\<lambda>k. lower k = k) [''caravan'']
   \<and> filter_jobs_kw [''caravan'']
        [\<lparr>title = ''Caravan Pilot'', company = ''AirCo'', link = ''https://a'', source = ''Indeed''\<rparr>,
         \<lparr>title = ''Accountant'', company = ''FinCo'', link = ''https://b'', source = ''Indeed''\<rparr>]
      = filter (passes [''caravan''])
        [\<lparr>title = ''Caravan Pilot'', company = ''AirCo'', link = ''https://a'', source = ''Indeed''\<rparr>,
         \<lparr>title = ''Accountant'', company = ''FinCo'', link = ''https://b'', source = ''Indeed''\<rparr>]
   \<and> filter_jobs_kw [''caravan'']
        [\<lparr>title = ''Caravan Pilot'', company = ''AirCo'', link = ''https://a'', source = ''Indeed''\<rparr>,
         \<lparr>title = ''Accountant'', company = ''FinCo'', link = ''https://b'', source = ''Indeed''\<rparr>]
      = [\<lparr>title = ''Caravan Pilot'', company = ''AirCo'', link = ''https://a'', source = ''Indeed''\<rparr>]"
proof -
  have h: "list_all (\<lambda>k. lower k = k) [''caravan'']"
    by (simp add: lower_def lower_char_def)
  have "filter_jobs_kw [''caravan'']
        [\<lparr>title = ''Caravan Pilot'', company = ''AirCo'', link = ''https://a'', source = ''Indeed''\<rparr>,
         \<lparr>title = ''Accountant'', company = ''FinCo'', link = ''https://b'', source = ''Indeed''\<rparr>]
      = [\<lparr>title = ''Caravan Pilot'', company = ''AirCo'', link = ''https://a'', source = ''Indeed''\<rparr>]"
    by code_simp
  with h filter_jobs_keyword_filter[OF h] show ?thesis by simp
qed

subsection \<open>Facts about dates\<close>

lemma digit_char_props:
  assumes "n < 10"
  shows "is_digit (digit_char n)" "digit_val (digit_char n) = n"
  using assms by (simp_all add: is_digit_def digit_char_def digit_val_def less_eq_char_def)


lemma digits_val_pad2: "n < 100 \<Longrightarrow> digits_val (zero_pad2 n) = n"
  by (simp add: digits_val_def zero_pad2_def digit_char_props)

lemma digits_val_pad4:
  assumes "n < 10000"
  shows "digits_val (zero_pad4 n) = n"
proof -
  define a where "a = n div 10"
  define b where "b = a div 10"
  define c where "c = b div 10"
  have b: "n div 100 = b" and c: "n div 1000 = c"
    using div_mult2_eq[of n 10 10] div_mult2_eq[of n 10 100] div_mult2_eq[of a 10 10]
    by (simp_all add: a_def b_def c_def)
  have "c < 10" using assms unfolding c[symmetric] by simp
  then have c10: "c mod 10 = c" by simp
  define r0 where "r0 = n mod 10"
  define r1 where "r1 = a mod 10"
  define r2 where "r2 = b mod 10"
  have n: "n = 10 * a + r0" and a: "a = 10 * b + r1" and b': "b = 10 * c + r2"
    by (simp_all add: a_def b_def c_def r0_def r1_def r2_def)
  have "digits_val (zero_pad4 n) = 10 * (10 * (10 * (c mod 10) + b mod 10) + a mod 10) + n mod 10"
    by (simp add: digits_val_def zero_pad4_def digit_char_props b c a_def[symmetric])
  also have "\<dots> = 10 * (10 * (10 * c + r2) + r1) + r0"
    by (simp only: c10 r0_def r1_def r2_def)
  also have "\<dots> = n" using n a b' by simp
  finally show ?thesis .
qed

lemma month_cases:
  "m \<le> 12 \<Longrightarrow> m = 0 \<or> m = 1 \<or> m = 2 \<or> m = 3 \<or> m = 4 \<or> m = 5 \<or> m = 6 \<or> m = 7 \<or> m = 8
     \<or> m = 9 \<or> m = 10 \<or> m = 11 \<or> m = (12::nat)"
  by arith

lemma days_in_month_le: "days_in_month y m \<le> 31" if "m \<le> 12"
  using month_cases[OF that] by (auto simp: days_in_month_def DAYS_IN_MONTH_def)

text \<open>
  On a string of ten characters with hyphens in the fifth and the eighth place,
  \<open>fromisoformat\<close> reads the form \<open>YYYY-MM-DD\<close> and nothing else.
\<close>

lemma length_10E:
  assumes "length s = 10"
  obtains c0 c1 c2 c3 c4 c5 c6 c7 c8 c9 where "s = [c0, c1, c2, c3, c4, c5, c6, c7, c8, c9]"
  using assms by (auto simp: length_Suc_conv numeral_eq_Suc)

lemma fromisoformat_extended:
  assumes "length s = 10" "s ! 4 = CHR ''-''" "s ! 7 = CHR ''-''"
  shows "fromisoformat s =
     (if list_all is_digit (take 4 s @ take 2 (drop 5 s) @ drop 8 s)
      then (let d = \<lparr>year = digits_val (take 4 s), month = digits_val (take 2 (drop 5 s)),
                     day = digits_val (drop 8 s)\<rparr>
            in if valid_date d then Inr d else Inl ValueError)
      else Inl ValueError)"
proof -
  from assms(1) obtain c0 c1 c2 c3 c4 c5 c6 c7 c8 c9
    where s: "s = [c0, c1, c2, c3, c4, c5, c6, c7, c8, c9]" by (rule length_10E)
  from assms(2,3) have c: "c4 = CHR ''-''" "c7 = CHR ''-''" by (simp_all add: s)
  have nd: "\<not> is_digit CHR ''-''" "\<not> is_digit CHR ''W''"
    by (simp_all add: is_digit_def less_eq_char_def)
  show ?thesis
    by (cases "c5 = CHR ''W''")
       (auto simp: s c nd fromisoformat_def parse_isoformat_date_def parse_digits_def Let_def)
qed

lemma fromisoformat_valid: "fromisoformat s = Inr d \<Longrightarrow> valid_date d"
  by (auto simp: fromisoformat_def split: if_splits option.splits)

lemma fromisoformat_isoformat:
  assumes "valid_date d"
  shows "fromisoformat (isoformat d) = Inr d"
proof -
  from assms have y: "year d < 10000" and m: "month d < 100" "month d \<le> 12"
    by (simp_all add: valid_date_def)
  from assms have "day d \<le> days_in_month (year d) (month d)"
    by (simp add: valid_date_def)
  with days_in_month_le[OF m(2), of "year d"] have dd: "day d < 100"
    by linarith
  let ?s = "isoformat d"
  have s: "?s = zero_pad4 (year d) @ ''-'' @ zero_pad2 (month d) @ ''-'' @ zero_pad2 (day d)"
    by (simp add: isoformat_def)
  have l4: "length (zero_pad4 (year d)) = 4" and l2: "length (zero_pad2 n) = 2" for n
    by (simp_all add: zero_pad4_def zero_pad2_def)
  have t1: "take 4 ?s = zero_pad4 (year d)" using l4 by (simp add: s)
  have t2: "take 2 (drop 5 ?s) = zero_pad2 (month d)" using l4 l2 by (simp add: s)
  have t3: "drop 8 ?s = zero_pad2 (day d)" using l4 l2 by (simp add: s)
  have len: "length ?s = 10" using l4 l2 by (simp add: s)
  have h1: "?s ! 4 = CHR ''-''" using l4 by (simp add: s nth_append)
  have h2: "?s ! 7 = CHR ''-''" using l4 l2 by (simp add: s nth_append)
  have dg: "list_all is_digit (zero_pad4 (year d) @ zero_pad2 (month d) @ zero_pad2 (day d))"
    by (simp add: zero_pad4_def zero_pad2_def digit_char_props)
  have "\<lparr>year = digits_val (zero_pad4 (year d)), month = digits_val (zero_pad2 (month d)),
         day = digits_val (zero_pad2 (day d))\<rparr> = d"
    using y m dd by (simp add: digits_val_pad2 digits_val_pad4)
  then show ?thesis
    unfolding fromisoformat_extended[OF len h1 h2] using assms dg
    by (simp only: t1 t2 t3 Let_def) simp
qed

subsection \<open>Facts about the history file\<close>

lemma dict_set_fresh: "k \<notin> fst ` set d \<Longrightarrow> dict_set d k v = d @ [(k, v)]"
  by (induction d) auto

lemma map_of_dict_set: "map_of (dict_set d k v) = (map_of d)(k \<mapsto> v)"
  by (induction d) (auto simp: fun_eq_iff)

lemma keys_dict_set:
  "map fst (dict_set d k v) = (if k \<in> fst ` set d then map fst d else map fst d @ [k])"
  by (induction d) force+

lemma distinct_dict_set: "distinct (map fst d) \<Longrightarrow> distinct (map fst (dict_set d k v))"
  by (simp add: keys_dict_set)

lemma foldl_dict_set_distinct:
  "distinct (map fst (acc @ xs)) \<Longrightarrow> foldl (\<lambda>d (k, v). dict_set d k v) acc xs = acc @ xs"
proof (induction xs arbitrary: acc)
  case Nil
  then show ?case by simp
next
  case (Cons x xs)
  obtain k v where x: "x = (k, v)" by (cases x)
  from Cons.prems have "k \<notin> fst ` set acc" by (auto simp: x)
  then have "dict_set acc k v = acc @ [(k, v)]" by (rule dict_set_fresh)
  moreover from Cons.prems have "distinct (map fst ((acc @ [(k, v)]) @ xs))" by (simp add: x)
  ultimately show ?case using Cons.IH[of "acc @ [(k, v)]"] by (simp add: x)
qed

lemma py_dict_distinct: "distinct (map fst xs) \<Longrightarrow> py_dict xs = xs"
  using foldl_dict_set_distinct[of "[]" xs] by (simp add: py_dict_def)

lemma foldl_dict_set_keys_distinct:
  "distinct (map fst acc) \<Longrightarrow> distinct (map fst (foldl (\<lambda>d (k, v). dict_set d k v) acc xs))"
  by (induction xs arbitrary: acc) (auto simp: distinct_dict_set)

lemma distinct_py_dict: "distinct (map fst (py_dict xs))"
  using foldl_dict_set_keys_distinct[of "[]" xs] by (simp add: py_dict_def)

lemma listing_of_to_json: "listing_of_json (listing_to_json job) = Some job"
  by (simp add: listing_of_json_def listing_to_json_def py_dict_def)

lemma those_map_inverse: "(\<And>x. f (g x) = Some x) \<Longrightarrow> those_map f (map g xs) = Some xs"
  by (induction xs) simp_all

lemma those_map_keys:
  "those_map day_of_json xs = Some ys \<Longrightarrow> map fst ys = map fst xs"
proof (induction xs arbitrary: ys)
  case Nil
  then show ?case by simp
next
  case (Cons x xs)
  then show ?case
    by (auto simp: day_of_json_def split: option.splits json.splits)
qed

lemma history_of_json_dump:
  assumes "distinct (map fst h)"
  shows "history_of_json (json_dump h) = Some h"
proof -
  let ?enc = "\<lambda>(dkey, jobs). (dkey, JArray (map listing_to_json jobs))"
  have "map fst (map ?enc h) = map fst h" by (induction h) auto
  with assms have "distinct (map fst (map ?enc h))" by (simp only:)
  then have "py_dict (map ?enc h) = map ?enc h"
    by (rule py_dict_distinct)
  moreover have "day_of_json (?enc e) = Some e" for e
    by (cases e) (simp add: day_of_json_def those_map_inverse[of listing_of_json, OF listing_of_to_json])
  ultimately show ?thesis
    by (simp add: history_of_json_def json_dump_def those_map_inverse[of day_of_json ?enc])
qed

lemma load_history_distinct: "load_history w = Inr h \<Longrightarrow> distinct (map fst h)"
  by (auto simp: load_history_def history_of_json_def distinct_py_dict
           dest!: those_map_keys split: option.splits json.splits)

text \<open>
  Claim C6. For every History \<open>h\<close> (a \<open>dict\<close>: its day-keys are distinct), the empty
  one included, \<open>save_history\<close> followed by \<open>load_history\<close> returns \<open>h\<close>: the
  same day-keys in the same order, each with the same list of jobs and the same
  field values.
\<close>

theorem load_save_round_trip:
  assumes "distinct (map fst h)"
  shows "load_history (save_history h w) = Inr h \<and> load_history (save_history [] w) = Inr []"
  using history_of_json_dump[OF assms] history_of_json_dump[of "[]"]
  by (simp add: load_history_def save_history_def)

theorem load_save_round_trip_witness:
  "distinct (map fst
     [(''2026-11-02'', [\<lparr>title = ''Caravan Pilot'', company = ''AirCo'', link = ''https://a'', source = ''Indeed''\<rparr>]),
      (''2026-11-03'', [])])
   \<and> load_history (save_history
     [(''2026-11-02'', [\<lparr>title = ''Caravan Pilot'', company = ''AirCo'', link = ''https://a'', source = ''Indeed''\<rparr>]),
      (''2026-11-03'', [])] fresh_world)
     = Inr [(''2026-11-02'', [\<lparr>title = ''Caravan Pilot'', company = ''AirCo'', link = ''https://a'', source = ''Indeed''\<rparr>]),
      (''2026-11-03'', [])]"
proof -
  have h: "distinct (map fst
     [(''2026-11-02'', [\<lparr>title = ''Caravan Pilot'', company = ''AirCo'', link = ''https://a'', source = ''Indeed''\<rparr>]),
      (''2026-11-03'', [])])"
    by simp
  show ?thesis using h load_save_round_trip[OF h, of fresh_world] by simp
qed

subsection \<open>The ordinal of a date\<close>

lemma nat_mod_int: "((y::nat) mod k = 0) = (int y mod int k = 0)"
  by (metis of_nat_mod of_nat_eq_0_iff)

lemma div_step:
  fixes z k :: int
  assumes "1 < k"
  shows "(z + 1) div k = z div k + (if (z + 1) mod k = 0 then 1 else 0)"
proof -
  have m: "0 \<le> z mod k" "z mod k < k" using assms by simp_all
  have e: "(z + 1) div k = z div k + (z mod k + 1) div k"
    using assms div_add1_eq[of z 1 k] by simp
  have e2: "(z + 1) mod k = (z mod k + 1) mod k"
    by (simp add: mod_add_left_eq)
  show ?thesis
  proof (cases "z mod k + 1 = k")
    case True
    with e e2 assms show ?thesis by simp
  next
    case False
    with m have lt: "z mod k + 1 < k" by simp
    with m have "(z mod k + 1) mod k = z mod k + 1" "(z mod k + 1) div k = 0"
      by (simp_all add: div_pos_pos_trivial)
    with m e e2 show ?thesis by simp
  qed
qed


lemma days_before_year_Suc:
  assumes "1 \<le> y"
  shows "days_before_year (Suc y) = days_before_year y + 365 + (if is_leap y then 1 else 0)"
proof -
  define z where "z = int y - 1"
  have y: "int y = z + 1" by (simp add: z_def)
  have m: "(y mod 4 = 0) = ((z + 1) mod 4 = 0)" "(y mod 100 = 0) = ((z + 1) mod 100 = 0)"
     "(y mod 400 = 0) = ((z + 1) mod 400 = 0)"
    using nat_mod_int[of y 4] nat_mod_int[of y 100] nat_mod_int[of y 400] by (simp_all add: y)
  have d: "days_before_year (Suc y) = (z + 1) * 365 + (z + 1) div 4 - (z + 1) div 100 + (z + 1) div 400"
    and d': "days_before_year y = z * 365 + z div 4 - z div 100 + z div 400"
    by (simp_all add: days_before_year_def Let_def z_def)
  define a4 where "a4 = (if (z + 1) mod 4 = 0 then 1 else (0::int))"
  define a100 where "a100 = (if (z + 1) mod 100 = 0 then 1 else (0::int))"
  define a400 where "a400 = (if (z + 1) mod 400 = 0 then 1 else (0::int))"
  have s4: "(z + 1) div 4 = z div 4 + a4" and s100: "(z + 1) div 100 = z div 100 + a100"
    and s400: "(z + 1) div 400 = z div 400 + a400"
    using div_step[of 4 z] div_step[of 100 z] div_step[of 400 z]
    by (simp_all only: a4_def a100_def a400_def)
  have i1: "(z + 1) mod 100 = 0 \<Longrightarrow> (z + 1) mod 4 = 0"
    using dvd_trans[of 4 100 "z + 1"] by (simp add: mod_eq_0_iff_dvd)
  have i2: "(z + 1) mod 400 = 0 \<Longrightarrow> (z + 1) mod 100 = 0"
    using dvd_trans[of 100 400 "z + 1"] by (simp add: mod_eq_0_iff_dvd)
  have "(if is_leap y then 1 else (0::int)) = a4 - a100 + a400"
    unfolding is_leap_def m a4_def a100_def a400_def using i1 i2 by auto
  then show ?thesis
    unfolding d d' s4 s100 s400 by (simp add: algebra_simps)
qed


lemma days_before_year_mono:
  assumes "1 \<le> y" "y < y'"
  shows "days_before_year y + 365 + (if is_leap y then 1 else 0) \<le> days_before_year y'"
  using assms(2)
proof (induction y')
  case 0
  then show ?case by simp
next
  case (Suc k)
  show ?case
  proof (cases "y = k")
    case True
    with assms(1) show ?thesis by (simp add: days_before_year_Suc)
  next
    case False
    with Suc.prems have "y < k" by simp
    from Suc.IH[OF this] have "days_before_year y + 365 + (if is_leap y then 1 else 0) \<le> days_before_year k" .
    moreover have "1 \<le> k" using \<open>y < k\<close> by simp
    then have "days_before_year k \<le> days_before_year (Suc k)"
      by (simp add: days_before_year_Suc)
    ultimately show ?thesis by linarith
  qed
qed

lemma days_before_month_Suc:
  assumes "1 \<le> m" "m \<le> 11"
  shows "days_before_month y (Suc m) = days_before_month y m + int (days_in_month y m)"
proof -
  from assms month_cases[of m]
  have "m = 1 \<or> m = 2 \<or> m = 3 \<or> m = 4 \<or> m = 5 \<or> m = 6 \<or> m = 7 \<or> m = 8 \<or> m = 9 \<or> m = 10 \<or> m = 11"
    by auto
  then show ?thesis
    by (elim disjE) (simp_all add: days_before_month_def days_in_month_def
        DAYS_BEFORE_MONTH_def DAYS_IN_MONTH_def eval_nat_numeral)
qed

lemma days_in_month_pos: "1 \<le> m \<Longrightarrow> m \<le> 12 \<Longrightarrow> 28 \<le> days_in_month y m \<and> days_in_month y m \<le> 31"
  using month_cases[of m] by (auto simp: days_in_month_def DAYS_IN_MONTH_def)

lemma days_before_month_mono:
  assumes "1 \<le> m" "m < m'" "m' \<le> 12"
  shows "days_before_month y m + int (days_in_month y m) \<le> days_before_month y m'"
  using assms(2,3)
proof (induction m')
  case 0
  then show ?case by simp
next
  case (Suc k)
  show ?case
  proof (cases "m = k")
    case True
    with assms(1) Suc.prems show ?thesis by (simp add: days_before_month_Suc)
  next
    case False
    with Suc.prems have lt: "m < k" and le: "k \<le> 12" by simp_all
    from Suc.IH[OF lt le]
    have "days_before_month y m + int (days_in_month y m) \<le> days_before_month y k" .
    moreover have "days_before_month y (Suc k) = days_before_month y k + int (days_in_month y k)"
      using lt Suc.prems by (intro days_before_month_Suc) simp_all
    ultimately show ?thesis by linarith
  qed
qed

lemma days_before_month_December:
  "days_before_month y 12 + 31 = 365 + (if is_leap y then 1 else 0)"
  by (simp add: days_before_month_def DAYS_BEFORE_MONTH_def)

lemma days_before_month_nonneg: "0 \<le> days_before_month y m"
  by (simp add: days_before_month_def)

lemma day_of_year_bounds:
  assumes "valid_date d"
  shows "1 \<le> days_before_month (year d) (month d) + int (day d)"
    and "days_before_month (year d) (month d) + int (day d) \<le> 365 + (if is_leap (year d) then 1 else 0)"
proof -
  from assms have m: "1 \<le> month d" "month d \<le> 12" and dd: "1 \<le> day d"
    "day d \<le> days_in_month (year d) (month d)"
    by (simp_all add: valid_date_def)
  from dd days_before_month_nonneg[of "year d" "month d"]
  show "1 \<le> days_before_month (year d) (month d) + int (day d)" by linarith
  show "days_before_month (year d) (month d) + int (day d) \<le> 365 + (if is_leap (year d) then 1 else 0)"
  proof (cases "month d = 12")
    case True
    with dd(2) have "day d \<le> 31" by (simp add: days_in_month_def DAYS_IN_MONTH_def)
    with True days_before_month_December[of "year d"] show ?thesis by simp
  next
    case False
    with m have "month d < 12" by simp
    from days_before_month_mono[OF m(1) this, of "year d"] days_before_month_December[of "year d"] dd(2)
    show ?thesis by linarith
  qed
qed

lemma days_before_year_nonneg: "1 \<le> y \<Longrightarrow> 0 \<le> days_before_year y"
proof (induction y)
  case 0
  then show ?case by simp
next
  case (Suc k)
  show ?case
  proof (cases "k = 0")
    case True
    then show ?thesis by (simp add: days_before_year_def)
  next
    case False
    then have "1 \<le> k" by simp
    with Suc.IH show ?thesis by (simp add: days_before_year_Suc)
  qed
qed

lemma toordinal_bounds:
  assumes "valid_date d"
  shows "1 \<le> toordinal d" and "toordinal d \<le> MAXORDINAL"
proof -
  from assms have y: "1 \<le> year d" "year d \<le> 9999" by (simp_all add: valid_date_def)
  from days_before_year_nonneg[OF y(1)] day_of_year_bounds(1)[OF assms]
  show "1 \<le> toordinal d" by (simp add: toordinal_def)
  have "days_before_year 10000 = MAXORDINAL"
    by (simp add: days_before_year_def MAXORDINAL_def)
  moreover from y have "year d < 10000" by simp
  from days_before_year_mono[OF y(1) this]
  have "days_before_year (year d) + 365 + (if is_leap (year d) then 1 else 0) \<le> days_before_year 10000" .
  ultimately show "toordinal d \<le> MAXORDINAL"
    using day_of_year_bounds(2)[OF assms] by (simp add: toordinal_def)
qed

text \<open>The order of dates by year, month and day.\<close>

lemma toordinal_less:
  assumes "valid_date a" "valid_date b"
    and "year a < year b \<or> year a = year b \<and> (month a < month b \<or> month a = month b \<and> day a < day b)"
  shows "toordinal a < toordinal b"
proof -
  from assms(1) have ya: "1 \<le> year a" and ma: "1 \<le> month a" and da: "day a \<le> days_in_month (year a) (month a)"
    by (simp_all add: valid_date_def)
  from assms(2) have mb: "month b \<le> 12" by (simp add: valid_date_def)
  consider "year a < year b" | "year a = year b" "month a < month b"
    | "year a = year b" "month a = month b" "day a < day b"
    using assms(3) by blast
  then show ?thesis
  proof cases
    case 1
    from days_before_year_mono[OF ya 1] day_of_year_bounds(2)[OF assms(1)] day_of_year_bounds(1)[OF assms(2)]
    show ?thesis by (simp add: toordinal_def)
  next
    case 2
    from days_before_month_mono[OF ma 2(2) mb, of "year a"] da day_of_year_bounds(1)[OF assms(2)] assms(2)
    show ?thesis by (simp add: toordinal_def 2(1) valid_date_def)
  next
    case 3
    then show ?thesis by (simp add: toordinal_def)
  qed
qed

lemma toordinal_inj:
  assumes "valid_date a" "valid_date b" "toordinal a = toordinal b"
  shows "a = b"
proof (rule ccontr)
  assume "a \<noteq> b"
  then have "year a \<noteq> year b \<or> month a \<noteq> month b \<or> day a \<noteq> day b"
    by (cases a, cases b) auto
  then have "(year a < year b \<or> year a = year b \<and> (month a < month b \<or> month a = month b \<and> day a < day b))
     \<or> (year b < year a \<or> year b = year a \<and> (month b < month a \<or> month b = month a \<and> day b < day a))"
    by linarith
  with toordinal_less[OF assms(1,2)] toordinal_less[OF assms(2,1)] assms(3)
  show False by auto
qed

subsection \<open>Facts about \<open>update_history\<close>\<close>

lemma load_history_save_history:
  "distinct (map fst h) \<Longrightarrow> load_history (save_history h w) = Inr h"
  by (simp add: load_history_def save_history_def history_of_json_dump)

lemmas date_eval = fromisoformat_extended digits_val_def digit_val_def is_digit_def less_eq_char_def
  valid_date_def days_in_month_def is_leap_def DAYS_IN_MONTH_def toordinal_def days_before_year_def
  days_before_month_def DAYS_BEFORE_MONTH_def Let_def

lemma digit_char_simps:
  "digit_char 0 = CHR ''0''" "digit_char 1 = CHR ''1''" "digit_char 2 = CHR ''2''"
  "digit_char 3 = CHR ''3''" "digit_char 4 = CHR ''4''" "digit_char 5 = CHR ''5''"
  "digit_char 6 = CHR ''6''" "digit_char 7 = CHR ''7''" "digit_char 8 = CHR ''8''"
  "digit_char 9 = CHR ''9''" "digit_char (Suc 0) = CHR ''1''"
  by code_simp+

lemma valid_key_isoformat:
  assumes "valid_date d"
  shows "valid_key (isoformat d)" and "key_ordinal (isoformat d) = toordinal d"
  by (simp_all add: valid_key_def key_ordinal_def fromisoformat_isoformat[OF assms])

lemma date_minus_days_Inr:
  "date_minus_days d n = Inr c \<Longrightarrow> c = toordinal d - n"
  by (auto simp: date_minus_days_def Let_def split: if_splits)

lemma date_minus_days_ok:
  assumes "valid_date d" "0 \<le> n" "n < toordinal d"
  shows "date_minus_days d n = Inr (toordinal d - n)"
proof -
  from toordinal_bounds(2)[OF assms(1)] have "toordinal d \<le> 3652059"
    by (simp add: MAXORDINAL_def)
  with assms(2,3) show ?thesis
    by (simp add: date_minus_days_def Let_def MAXORDINAL_def)
qed

lemma valid_key_Inr:
  "fromisoformat k = Inr d \<Longrightarrow> valid_key k" "fromisoformat k = Inr d \<Longrightarrow> key_ordinal k = toordinal d"
  by (simp_all add: valid_key_def key_ordinal_def)

lemma valid_keyE:
  assumes "valid_key k"
  obtains d where "fromisoformat k = Inr d"
  using assms by (auto simp: valid_key_def split: sum.splits)

lemma prune_valid:
  "list_all valid_key (map fst h) \<Longrightarrow>
   prune c h = Inr (filter (\<lambda>e. c \<le> key_ordinal (fst e)) h)"
proof (induction h)
  case Nil
  then show ?case by simp
next
  case (Cons x h)
  obtain k v where x: "x = (k, v)" by (cases x)
  from Cons.prems have "valid_key k" and rest: "list_all valid_key (map fst h)"
    by (simp_all add: x)
  then obtain d where d: "fromisoformat k = Inr d" by (auto elim: valid_keyE)
  from Cons.IH[OF rest] d valid_key_Inr(2)[OF d] show ?case
    by (simp add: x)
qed

lemma fromisoformat_error: "fromisoformat k = Inl e \<Longrightarrow> e = ValueError"
  by (auto simp: fromisoformat_def split: if_splits option.splits)

lemma prune_invalid:
  "\<not> list_all valid_key (map fst h) \<Longrightarrow> prune c h = Inl ValueError"
proof (induction h)
  case Nil
  then show ?case by simp
next
  case (Cons x h)
  obtain k v where x: "x = (k, v)" by (cases x)
  show ?case
  proof (cases "fromisoformat k")
    case (Inl e)
    with fromisoformat_error[OF Inl] show ?thesis by (simp add: x)
  next
    case (Inr d)
    with Cons.prems valid_key_Inr(1)[OF Inr] have "\<not> list_all valid_key (map fst h)"
      by (simp add: x)
    from Cons.IH[OF this] Inr show ?thesis by (simp add: x)
  qed
qed

lemma prune_Inr:
  assumes "prune c h = Inr r"
  shows "list_all valid_key (map fst h)" and "r = filter (\<lambda>e. c \<le> key_ordinal (fst e)) h"
proof -
  show v: "list_all valid_key (map fst h)"
    using assms prune_invalid[of h c] by auto
  from prune_valid[OF v, of c] assms show "r = filter (\<lambda>e. c \<le> key_ordinal (fst e)) h"
    by simp
qed

lemma update_history_days_Inr:
  assumes "update_history_days n today jobs w = Inr (r, w')"
  obtains h where "load_history w = Inr h"
    and "date_minus_days today n = Inr (toordinal today - n)"
    and "list_all valid_key (map fst (dict_set h (isoformat today) jobs))"
    and "r = filter (\<lambda>e. toordinal today - n \<le> key_ordinal (fst e)) (dict_set h (isoformat today) jobs)"
    and "w' = save_history r w"
proof -
  from assms obtain h c where h: "load_history w = Inr h"
    and c: "date_minus_days today n = Inr c"
    and p: "prune c (dict_set h (isoformat today) jobs) = Inr r"
    and w': "w' = save_history r w"
    by (auto simp: update_history_days_def Let_def split: sum.splits)
  from date_minus_days_Inr[OF c] have "c = toordinal today - n" .
  with h c prune_Inr[OF p] w' that show ?thesis by simp
qed

lemma update_history_days_ok:
  assumes "load_history w = Inr h" "list_all valid_key (map fst h)"
    and "valid_date today" "0 \<le> n" "n < toordinal today"
  shows "update_history_days n today jobs w =
     Inr (filter (\<lambda>e. toordinal today - n \<le> key_ordinal (fst e)) (dict_set h (isoformat today) jobs),
          save_history (filter (\<lambda>e. toordinal today - n \<le> key_ordinal (fst e))
             (dict_set h (isoformat today) jobs)) w)"
proof -
  have "list_all valid_key (map fst (dict_set h (isoformat today) jobs))"
    using assms(2) valid_key_isoformat(1)[OF assms(3)] by (simp add: keys_dict_set)
  from prune_valid[OF this] date_minus_days_ok[OF assms(3,4,5)] assms(1)
  show ?thesis by (simp add: update_history_days_def Let_def)
qed

lemma map_of_filter_key:
  "map_of (filter (\<lambda>e. Q (fst e)) xs) k = (if Q k then map_of xs k else None)"
  by (induction xs) auto

lemma distinct_filter_keys: "distinct (map fst xs) \<Longrightarrow> distinct (map fst (filter P xs))"
  by (induction xs) auto

lemma update_history_days_eq:
  assumes "load_history w = Inr h"
    and "list_all valid_key (map fst (dict_set h (isoformat today) jobs))"
    and "date_minus_days today n = Inr c"
  shows "update_history_days n today jobs w =
     Inr (filter (\<lambda>e. c \<le> key_ordinal (fst e)) (dict_set h (isoformat today) jobs),
          save_history (filter (\<lambda>e. c \<le> key_ordinal (fst e))
             (dict_set h (isoformat today) jobs)) w)"
  using prune_valid[OF assms(2), of c] assms(1,3)
  by (simp add: update_history_days_def Let_def)

lemma filter_key_dict_set:
  "distinct (map fst xs) \<Longrightarrow> filter (\<lambda>e. fst e = k) (dict_set xs k v) = [(k, v)]"
proof (induction xs)
  case Nil
  then show ?case by simp
next
  case (Cons x xs)
  obtain k' v' where x: "x = (k', v')" by (cases x)
  show ?case
  proof (cases "k' = k")
    case True
    with Cons.prems have "k \<notin> fst ` set xs" by (simp add: x)
    then have "filter (\<lambda>e. fst e = k) xs = []"
      by (auto simp: filter_empty_conv)
    with True show ?thesis by (simp add: x)
  next
    case False
    with Cons show ?thesis by (simp add: x)
  qed
qed

text \<open>What a successful update returns, and that it can be loaded again.\<close>

lemma update_history_days_result:
  assumes "valid_date today" "0 \<le> n" "update_history_days n today jobs w = Inr (r, w')"
  shows "map_of r (isoformat today) = Some jobs"
    and "w' = save_history r w"
    and "load_history w' = Inr r"
    and "distinct (map fst r)"
    and "list_all valid_key (map fst r)"
    and "\<forall>e \<in> set r. toordinal today - n \<le> key_ordinal (fst e)"
    and "date_minus_days today n = Inr (toordinal today - n)"
proof -
  let ?d = "isoformat today" and ?c = "toordinal today - n"
  from assms(3) obtain h where h: "load_history w = Inr h"
    and c: "date_minus_days today n = Inr ?c"
    and v: "list_all valid_key (map fst (dict_set h ?d jobs))"
    and r: "r = filter (\<lambda>e. ?c \<le> key_ordinal (fst e)) (dict_set h ?d jobs)"
    and w': "w' = save_history r w"
    by (rule update_history_days_Inr)
  show "w' = save_history r w" by (rule w')
  show "date_minus_days today n = Inr ?c" by (rule c)
  from assms(2) valid_key_isoformat(2)[OF assms(1)] have "?c \<le> key_ordinal ?d" by simp
  then show "map_of r ?d = Some jobs"
    unfolding r using map_of_filter_key[of "\<lambda>k. ?c \<le> key_ordinal k" "dict_set h ?d jobs" ?d]
    by (simp add: map_of_dict_set)
  from load_history_distinct[OF h] have "distinct (map fst (dict_set h ?d jobs))"
    by (rule distinct_dict_set)
  then show dist: "distinct (map fst r)"
    unfolding r by (rule distinct_filter_keys)
  from load_history_save_history[OF dist, of w] show "load_history w' = Inr r"
    by (simp add: w')
  from v show "list_all valid_key (map fst r)"
    unfolding r by (auto simp: list_all_iff)
  show "\<forall>e \<in> set r. ?c \<le> key_ordinal (fst e)"
    unfolding r by simp
qed

lemma update_history_days_again:
  assumes "valid_date today" "0 \<le> n" "update_history_days n today jobs1 w = Inr (r1, w1)"
  shows "update_history_days n today jobs2 w1 =
     Inr (dict_set r1 (isoformat today) jobs2, save_history (dict_set r1 (isoformat today) jobs2) w1)"
proof -
  let ?d = "isoformat today" and ?c = "toordinal today - n"
  note res = update_history_days_result[OF assms]
  from res(1) have "(?d, jobs1) \<in> set r1" by (rule map_of_SomeD)
  then have "?d \<in> fst ` set r1" by force
  then have keys: "map fst (dict_set r1 ?d jobs2) = map fst r1"
    by (simp add: keys_dict_set)
  with res(5) have v: "list_all valid_key (map fst (dict_set r1 ?d jobs2))" by simp
  from res(6) have "\<forall>k \<in> set (map fst r1). ?c \<le> key_ordinal k" by simp
  with keys have "\<forall>k \<in> set (map fst (dict_set r1 ?d jobs2)). ?c \<le> key_ordinal k" by simp
  then have "\<forall>e \<in> set (dict_set r1 ?d jobs2). ?c \<le> key_ordinal (fst e)" by simp
  then have "filter (\<lambda>e. ?c \<le> key_ordinal (fst e)) (dict_set r1 ?d jobs2) = dict_set r1 ?d jobs2"
    by (simp only: filter_id_conv)
  with update_history_days_eq[OF res(3) v res(7)] show ?thesis by simp
qed

subsection \<open>The scenario\<close>

lemma scenario_today_facts:
  "valid_date scenario_today" "toordinal scenario_today = 739923"
  "isoformat scenario_today = ''2026-11-03''"
  by (simp_all add: scenario_today_def date_eval isoformat_def zero_pad4_def zero_pad2_def
      digit_char_simps)

lemma scenario_history_ordinals:
  "map key_ordinal (map fst scenario_history) = [739888, 739889, 739890, 739891, 739892, 739893, 739894, 739895, 739896, 739897, 739898, 739899, 739900, 739901, 739902, 739903, 739904, 739905, 739906, 739907, 739908, 739909, 739910, 739911, 739912, 739913, 739914, 739915, 739916, 739917, 739918, 739919, 739920, 739921, 739922]"
  by (simp add: scenario_history_def key_ordinal_def date_eval)

lemma scenario_history_valid: "list_all valid_key (map fst scenario_history)"
  by (simp add: scenario_history_def valid_key_def date_eval)

lemma scenario_history_load:
  "load_history (save_history scenario_history fresh_world) = Inr scenario_history"
  by (rule load_history_save_history) (simp add: scenario_history_def)

lemma scenario_history_keys:
  "key_ordinal ` fst ` set scenario_history = {739923 - 35 .. 739923 - 1}"
proof -
  have "key_ordinal ` fst ` set scenario_history = set (map key_ordinal (map fst scenario_history))"
    by (simp add: image_image)
  also have "map key_ordinal (map fst scenario_history) = [739888..739922]"
    unfolding scenario_history_ordinals by simp
  also have "set [739888..739922] = {739923 - 35 .. 739923 - 1}"
    by (simp only: set_upto) simp
  finally show ?thesis .
qed

lemma scenario_update:
  "update_history scenario_today [] (save_history scenario_history fresh_world) =
     Inr ([(''2026-10-04'', []),
      (''2026-10-05'', []),
      (''2026-10-06'', []),
      (''2026-10-07'', []),
      (''2026-10-08'', []),
      (''2026-10-09'', []),
      (''2026-10-10'', []),
      (''2026-10-11'', []),
      (''2026-10-12'', []),
      (''2026-10-13'', []),
      (''2026-10-14'', []),
      (''2026-10-15'', []),
      (''2026-10-16'', []),
      (''2026-10-17'', []),
      (''2026-10-18'', []),
      (''2026-10-19'', []),
      (''2026-10-20'', []),
      (''2026-10-21'', []),
      (''2026-10-22'', []),
      (''2026-10-23'', []),
      (''2026-10-24'', []),
      (''2026-10-25'', []),
      (''2026-10-26'', []),
      (''2026-10-27'', []),
      (''2026-10-28'', []),
      (''2026-10-29'', []),
      (''2026-10-30'', []),
      (''2026-10-31'', []),
      (''2026-11-01'', []),
      (''2026-11-02'', []),
      (''2026-11-03'', [])],
          save_history ([(''2026-10-04'', []),
      (''2026-10-05'', []),
      (''2026-10-06'', []),
      (''2026-10-07'', []),
      (''2026-10-08'', []),
      (''2026-10-09'', []),
      (''2026-10-10'', []),
      (''2026-10-11'', []),
      (''2026-10-12'', []),
      (''2026-10-13'', []),
      (''2026-10-14'', []),
      (''2026-10-15'', []),
      (''2026-10-16'', []),
      (''2026-10-17'', []),
      (''2026-10-18'', []),
      (''2026-10-19'', []),
      (''2026-10-20'', []),
      (''2026-10-21'', []),
      (''2026-10-22'', []),
      (''2026-10-23'', []),
      (''2026-10-24'', []),
      (''2026-10-25'', []),
      (''2026-10-26'', []),
      (''2026-10-27'', []),
      (''2026-10-28'', []),
      (''2026-10-29'', []),
      (''2026-10-30'', []),
      (''2026-10-31'', []),
      (''2026-11-01'', []),
      (''2026-11-02'', []),
      (''2026-11-03'', [])])
            (save_history scenario_history fresh_world))"
proof -
  have k: "key_ordinal ''2026-11-03'' = 739923"
    by (simp add: key_ordinal_def date_eval)
  have "(30::int) < toordinal scenario_today" by (simp add: scenario_today_facts)
  from update_history_days_ok[OF scenario_history_load scenario_history_valid scenario_today_facts(1) _ this, of "[]"]
  show ?thesis
    using scenario_history_ordinals
    by (simp add: update_history_def DAYS_TO_KEEP_def scenario_today_facts k scenario_history_def)
qed

lemma load_history_fresh_world: "load_history fresh_world = Inr []"
  by (simp add: load_history_def fresh_world_def)

lemma fresh_update:
  "update_history_days 30 scenario_today jobs fresh_world =
     Inr ([(''2026-11-03'', jobs)], save_history [(''2026-11-03'', jobs)] fresh_world)"
proof -
  have k: "key_ordinal ''2026-11-03'' = 739923"
    by (simp add: key_ordinal_def date_eval)
  have "(30::int) < toordinal scenario_today" by (simp add: scenario_today_facts)
  from update_history_days_ok[OF load_history_fresh_world _ scenario_today_facts(1) _ this, of jobs]
  show ?thesis by (simp add: scenario_today_facts k)
qed

lemma future_key_update:
  "update_history scenario_today [] (save_history [(''2026-12-25'', [])] fresh_world) =
     Inr ([(''2026-12-25'', []), (''2026-11-03'', [])],
          save_history [(''2026-12-25'', []), (''2026-11-03'', [])]
            (save_history [(''2026-12-25'', [])] fresh_world))"
proof -
  have l: "load_history (save_history [(''2026-12-25'', [])] fresh_world) = Inr [(''2026-12-25'', [])]"
    by (rule load_history_save_history) simp
  have k: "key_ordinal ''2026-12-25'' = 739975" "key_ordinal ''2026-11-03'' = 739923"
    by (simp_all add: key_ordinal_def date_eval)
  have v: "list_all valid_key (map fst [(''2026-12-25'', [])])"
    by (simp add: valid_key_def date_eval)
  have "(30::int) < toordinal scenario_today" by (simp add: scenario_today_facts)
  from update_history_days_ok[OF l v scenario_today_facts(1) _ this, of "[]"]
  show ?thesis
    by (simp add: update_history_def DAYS_TO_KEEP_def scenario_today_facts k)
qed

lemma negative_retention_update:
  "update_history_days (- 1) scenario_today jobs fresh_world = Inr ([], save_history [] fresh_world)"
proof -
  have k: "key_ordinal ''2026-11-03'' = 739923"
    by (simp add: key_ordinal_def date_eval)
  have v: "list_all valid_key (map fst (dict_set [] (isoformat scenario_today) jobs))"
    by (simp add: scenario_today_facts valid_key_def date_eval)
  have c: "date_minus_days scenario_today (- 1) = Inr 739924"
    by (simp add: date_minus_days_def scenario_today_facts MAXORDINAL_def)
  from update_history_days_eq[OF load_history_fresh_world v c]
  show ?thesis by (simp add: scenario_today_facts k)
qed

subsection \<open>The claims about \<open>update_history\<close>\<close>

text \<open>
  Claim C10. Whatever the prior History and today's jobs, the History that
  \<open>update_history\<close> returns, for a retention of \<open>n \<ge> 0\<close> days, maps today's key to
  exactly today's jobs: pruning never removes the entry just inserted. The state
  returned is the one after \<open>save_history\<close>, and loading it gives the same History.
  The update does return when the keys of the stored History are ISO dates and
  today minus \<open>n\<close> days is a date.
\<close>

theorem update_history_keeps_today:
  assumes "valid_date today" "0 \<le> n"
  shows "(update_history_days n today jobs w = Inr (r, w') \<longrightarrow>
            map_of r (isoformat today) = Some jobs \<and> w' = save_history r w
            \<and> load_history w' = Inr r)
         \<and> (load_history w = Inr h \<and> list_all valid_key (map fst h) \<and> n < toordinal today \<longrightarrow>
              (\<exists>r' w''. update_history_days n today jobs w = Inr (r', w'')))"
proof (intro conjI impI)
  assume u: "update_history_days n today jobs w = Inr (r, w')"
  show "map_of r (isoformat today) = Some jobs"
    by (rule update_history_days_result(1)[OF assms u])
  show "w' = save_history r w"
    by (rule update_history_days_result(2)[OF assms u])
  show "load_history w' = Inr r"
    by (rule update_history_days_result(3)[OF assms u])
next
  assume a: "load_history w = Inr h \<and> list_all valid_key (map fst h) \<and> n < toordinal today"
  then have "load_history w = Inr h" "list_all valid_key (map fst h)" "n < toordinal today"
    by simp_all
  from update_history_days_ok[OF this(1,2) assms this(3), of jobs]
  show "\<exists>r' w''. update_history_days n today jobs w = Inr (r', w'')"
    by (intro exI)
qed

theorem update_history_keeps_today_witness:
  "valid_date scenario_today \<and> (0::int) \<le> 30
   \<and> load_history fresh_world = Inr [] \<and> list_all valid_key (map fst ([] :: history))
   \<and> 30 < toordinal scenario_today
   \<and> update_history_days 30 scenario_today [] fresh_world
       = Inr ([(''2026-11-03'', [])], save_history [(''2026-11-03'', [])] fresh_world)
   \<and> map_of [(''2026-11-03'', [])] (isoformat scenario_today) = Some []
   \<and> load_history (save_history [(''2026-11-03'', [])] fresh_world) = Inr [(''2026-11-03'', [])]
   \<and> (\<exists>r' w''. update_history_days 30 scenario_today [] fresh_world = Inr (r', w''))"
proof -
  have n: "(0::int) \<le> 30" and t: "30 < toordinal scenario_today"
    by (simp_all add: scenario_today_facts(2))
  from update_history_keeps_today[OF scenario_today_facts(1) n, of "[]" fresh_world
      "[(''2026-11-03'', [])]" "save_history [(''2026-11-03'', [])] fresh_world" "[]"]
  show ?thesis using scenario_today_facts(1) fresh_update[of "[]"] t load_history_fresh_world
    by (simp add: scenario_today_facts(3))
qed

text \<open>
  With a negative retention the cutoff is after today, and the entry just inserted
  is pruned.
\<close>

lemma update_history_negative_retention:
  "map_sum id fst (update_history_days (- 1) scenario_today jobs fresh_world) = Inr []"
  by (simp add: negative_retention_update)

text \<open>
  Claim C7. Two updates with the same day-key: after \<open>update_history\<close> with the jobs
  \<open>jobs1\<close> and then, on the state it saved, with \<open>jobs2\<close> on the same date, the
  History has exactly one entry for that date and it holds \<open>jobs2\<close>; the other
  entries are those of the first update.
\<close>

theorem update_history_overwrites:
  assumes "valid_date today" "0 \<le> n" "update_history_days n today jobs1 w = Inr (r1, w1)"
  shows "\<exists>r2 w2. update_history_days n today jobs2 w1 = Inr (r2, w2)
           \<and> filter (\<lambda>e. fst e = isoformat today) r2 = [(isoformat today, jobs2)]
           \<and> map_of r2 (isoformat today) = Some jobs2
           \<and> r2 = dict_set r1 (isoformat today) jobs2"
proof (intro exI conjI)
  show "update_history_days n today jobs2 w1 =
     Inr (dict_set r1 (isoformat today) jobs2, save_history (dict_set r1 (isoformat today) jobs2) w1)"
    by (rule update_history_days_again[OF assms])
  show "filter (\<lambda>e. fst e = isoformat today) (dict_set r1 (isoformat today) jobs2)
          = [(isoformat today, jobs2)]"
    by (rule filter_key_dict_set[OF update_history_days_result(4)[OF assms]])
  show "map_of (dict_set r1 (isoformat today) jobs2) (isoformat today) = Some jobs2"
    by (simp add: map_of_dict_set)
  show "dict_set r1 (isoformat today) jobs2 = dict_set r1 (isoformat today) jobs2" ..
qed

theorem update_history_overwrites_witness:
  "valid_date scenario_today \<and> (0::int) \<le> 30
   \<and> update_history_days 30 scenario_today
        [\<lparr>title = ''Caravan Pilot'', company = ''AirCo'', link = ''https://a'', source = ''Indeed''\<rparr>]
        fresh_world
       = Inr ([(''2026-11-03'', [\<lparr>title = ''Caravan Pilot'', company = ''AirCo'', link = ''https://a'', source = ''Indeed''\<rparr>])],
              save_history [(''2026-11-03'', [\<lparr>title = ''Caravan Pilot'', company = ''AirCo'', link = ''https://a'', source = ''Indeed''\<rparr>])] fresh_world)
   \<and> (\<exists>r2 w2. update_history_days 30 scenario_today []
          (save_history [(''2026-11-03'', [\<lparr>title = ''Caravan Pilot'', company = ''AirCo'', link = ''https://a'', source = ''Indeed''\<rparr>])] fresh_world)
          = Inr (r2, w2)
        \<and> filter (\<lambda>e. fst e = isoformat scenario_today) r2 = [(isoformat scenario_today, [])]
        \<and> map_of r2 (isoformat scenario_today) = Some []
        \<and> r2 = dict_set [(''2026-11-03'', [\<lparr>title = ''Caravan Pilot'', company = ''AirCo'', link = ''https://a'', source = ''Indeed''\<rparr>])]
                 (isoformat scenario_today) [])"
proof -
  have n: "(0::int) \<le> 30" by simp
  let ?J = "[\<lparr>title = ''Caravan Pilot'', company = ''AirCo'', link = ''https://a'', source = ''Indeed''\<rparr>]"
  from update_history_overwrites[OF scenario_today_facts(1) n fresh_update[of ?J], where ?jobs2.0 = "[]"]
  show ?thesis using scenario_today_facts(1) fresh_update[of ?J]
    by (simp add: scenario_today_facts(3))
qed

text \<open>
  Claim C3, as amended. For a History whose keys are ISO dates, \<open>update_history\<close>
  with retention \<open>n\<close> returns the entries of the History with today's entry set,
  without those whose date is before today minus \<open>n\<close> days, and no others are
  removed: every remaining key is a date not earlier than today minus \<open>n\<close> days.
  An entry dated after today is kept, however far ahead.
\<close>

theorem update_history_retention:
  assumes "load_history w = Inr h" "list_all valid_key (map fst h)"
    and "valid_date today" "0 \<le> n" "n < toordinal today"
  shows "\<exists>r. update_history_days n today jobs w = Inr (r, save_history r w)
           \<and> list_all (\<lambda>e. valid_key (fst e) \<and> toordinal today - n \<le> key_ordinal (fst e)) r
           \<and> r = filter (\<lambda>e. toordinal today - n \<le> key_ordinal (fst e))
                    (dict_set h (isoformat today) jobs)"
proof -
  define r where "r = filter (\<lambda>e. toordinal today - n \<le> key_ordinal (fst e))
     (dict_set h (isoformat today) jobs)"
  have u: "update_history_days n today jobs w = Inr (r, save_history r w)"
    unfolding r_def by (rule update_history_days_ok[OF assms])
  have v: "list_all valid_key (map fst r)"
    and c: "\<forall>e \<in> set r. toordinal today - n \<le> key_ordinal (fst e)"
    by (rule update_history_days_result(5,6)[OF assms(3,4) u])+
  from v have "\<forall>e \<in> set r. valid_key (fst e)" by (simp add: list_all_iff)
  with c have "list_all (\<lambda>e. valid_key (fst e) \<and> toordinal today - n \<le> key_ordinal (fst e)) r"
    by (simp add: list_all_iff)
  with u r_def show ?thesis by (intro exI[of _ r] conjI)
qed

theorem update_history_retention_witness:
  "load_history (save_history scenario_history fresh_world) = Inr scenario_history
   \<and> list_all valid_key (map fst scenario_history)
   \<and> valid_date scenario_today \<and> (0::int) \<le> 30 \<and> 30 < toordinal scenario_today
   \<and> (\<exists>r. update_history_days 30 scenario_today [] (save_history scenario_history fresh_world)
             = Inr (r, save_history r (save_history scenario_history fresh_world))
          \<and> list_all (\<lambda>e. valid_key (fst e) \<and> toordinal scenario_today - 30 \<le> key_ordinal (fst e)) r
          \<and> r = filter (\<lambda>e. toordinal scenario_today - 30 \<le> key_ordinal (fst e))
                   (dict_set scenario_history (isoformat scenario_today) []))"
proof -
  have n: "(0::int) \<le> 30" and t: "30 < toordinal scenario_today"
    by (simp_all add: scenario_today_facts)
  from update_history_retention[OF scenario_history_load scenario_history_valid
      scenario_today_facts(1) n t, of "[]"]
  show ?thesis
    using scenario_history_load scenario_history_valid scenario_today_facts(1) n t by (intro conjI)
qed

text \<open>
  The claim as stated asks every remaining key to be within \<open>n\<close> days of today. A
  History with a key 52 days after today keeps it, with \<open>DAYS_TO_KEEP = 30\<close>.
\<close>

theorem update_history_retention_counterexample:
  "update_history scenario_today [] (save_history [(''2026-12-25'', [])] fresh_world) =
     Inr ([(''2026-12-25'', []), (''2026-11-03'', [])],
          save_history [(''2026-12-25'', []), (''2026-11-03'', [])]
            (save_history [(''2026-12-25'', [])] fresh_world))
   \<and> key_ordinal ''2026-12-25'' - toordinal scenario_today = 52
   \<and> DAYS_TO_KEEP = 30"
proof -
  have "key_ordinal ''2026-12-25'' = 739975"
    by (simp add: key_ordinal_def date_eval)
  with future_key_update show ?thesis
    by (simp add: scenario_today_facts(2) DAYS_TO_KEEP_def)
qed

text \<open>
  Claim C4, as amended. If the History holds exactly the 35 days before today, then
  after \<open>update_history\<close> (retention \<open>DAYS_TO_KEEP = 30\<close>) 31 keys remain: today and
  the 30 days before it.
\<close>

theorem update_history_35_days:
  assumes "load_history w = Inr h" "list_all valid_key (map fst h)" "valid_date today"
    and "35 < toordinal today" "length h = 35"
    and "key_ordinal ` fst ` set h = {toordinal today - 35 .. toordinal today - 1}"
  shows "\<exists>r. update_history today jobs w = Inr (r, save_history r w) \<and> length r = 31
           \<and> key_ordinal ` fst ` set r = {toordinal today - 30 .. toordinal today}"
proof -
  define t where "t = toordinal today"
  define d where "d = isoformat today"
  define f where "f = (\<lambda>e :: string \<times> listing list. key_ordinal (fst e))"
  define Q where "Q = (\<lambda>e :: string \<times> listing list. t - 30 \<le> key_ordinal (fst e))"
  have img: "f ` set h = {t - 35 .. t - 1}"
    using assms(6) by (simp add: f_def t_def image_image)
  have kd: "key_ordinal d = t"
    using valid_key_isoformat(2)[OF assms(3)] by (simp add: d_def t_def)
  have dist_keys: "distinct (map fst h)" by (rule load_history_distinct[OF assms(1)])
  then have dist: "distinct h" by (simp add: distinct_map)
  then have "card (set h) = 35" using assms(5) by (simp add: distinct_card)
  moreover have "card {t - 35 .. t - 1} = 35" by simp
  ultimately have "card (f ` set h) = card (set h)" by (simp add: img)
  then have inj: "inj_on f (set h)" by (intro eq_card_imp_inj_on) simp_all
  have fresh: "d \<notin> fst ` set h"
  proof
    assume "d \<in> fst ` set h"
    then have "key_ordinal d \<in> key_ordinal ` fst ` set h" by (rule imageI)
    with assms(6) kd show False by (simp add: t_def)
  qed
  then have ds: "dict_set h d jobs = h @ [(d, jobs)]" by (rule dict_set_fresh)
  let ?B = "{e \<in> set h. Q e}"
  have "f ` ?B = {t - 30 .. t - 1}"
  proof (intro equalityI subsetI)
    fix x assume "x \<in> f ` ?B"
    then obtain e where e: "e \<in> set h" "Q e" "x = f e" by auto
    from e(1) img have "f e \<in> {t - 35 .. t - 1}" by blast
    with e(2,3) show "x \<in> {t - 30 .. t - 1}" by (simp add: Q_def f_def)
  next
    fix x assume x: "x \<in> {t - 30 .. t - 1}"
    then have "x \<in> f ` set h" unfolding img by simp
    then obtain e where "e \<in> set h" "x = f e" by auto
    with x show "x \<in> f ` ?B" by (auto simp: Q_def f_def)
  qed
  moreover have "inj_on f ?B" by (rule inj_on_subset[OF inj]) auto
  then have "card (f ` ?B) = card ?B" by (rule card_image)
  ultimately have cardB: "card ?B = 30" by simp
  have "distinct (filter Q h)" using dist by simp
  then have "card (set (filter Q h)) = length (filter Q h)" by (rule distinct_card)
  moreover have "set (filter Q h) = ?B" by simp
  ultimately have len: "length (filter Q h) = 30" using cardB by simp
  define r where "r = filter Q h @ [(d, jobs)]"
  have Qd: "Q (d, jobs)" by (simp add: Q_def kd)
  have "30 < toordinal today" using assms(4) by simp
  from update_history_days_ok[OF assms(1,2,3) _ this, of jobs]
  have "update_history today jobs w = Inr (r, save_history r w)"
    using Qd by (simp add: update_history_def DAYS_TO_KEEP_def r_def Q_def ds d_def[symmetric] t_def[symmetric])
  moreover have "length r = 31" by (simp add: r_def len)
  moreover have "key_ordinal ` fst ` set r = {t - 30 .. t}"
  proof -
    have "key_ordinal ` fst ` set r = f ` ?B \<union> {t}"
      by (auto simp: r_def f_def kd image_image)
    also have "\<dots> = {t - 30 .. t - 1} \<union> {t}" using \<open>f ` ?B = {t - 30 .. t - 1}\<close> by simp
    also have "\<dots> = {t - 30 .. t}" by auto
    finally show ?thesis .
  qed
  ultimately show ?thesis unfolding t_def by (intro exI[of _ r] conjI)
qed

theorem update_history_35_days_witness:
  "load_history (save_history scenario_history fresh_world) = Inr scenario_history
   \<and> list_all valid_key (map fst scenario_history)
   \<and> valid_date scenario_today \<and> 35 < toordinal scenario_today \<and> length scenario_history = 35
   \<and> key_ordinal ` fst ` set scenario_history
       = {toordinal scenario_today - 35 .. toordinal scenario_today - 1}
   \<and> (\<exists>r. update_history scenario_today [] (save_history scenario_history fresh_world)
             = Inr (r, save_history r (save_history scenario_history fresh_world))
          \<and> length r = 31
          \<and> key_ordinal ` fst ` set r = {toordinal scenario_today - 30 .. toordinal scenario_today})"
proof -
  have t: "35 < toordinal scenario_today" by (simp add: scenario_today_facts)
  have l: "length scenario_history = 35" by (simp add: scenario_history_def)
  have k: "key_ordinal ` fst ` set scenario_history
       = {toordinal scenario_today - 35 .. toordinal scenario_today - 1}"
    using scenario_history_keys by (simp add: scenario_today_facts)
  from update_history_35_days[OF scenario_history_load scenario_history_valid
      scenario_today_facts(1) t l k, of "[]"]
  show ?thesis
    using scenario_history_load scenario_history_valid scenario_today_facts(1) t l k
    by (intro conjI)
qed

text \<open>
  The claim as stated, 30 remaining keys, fails in the scenario: the History holds
  the days 35 to 1 before today, and 31 entries remain.
\<close>

theorem update_history_35_days_counterexample:
  "map (\<lambda>k. toordinal scenario_today - key_ordinal k) (map fst scenario_history) = [35, 34, 33, 32, 31, 30, 29, 28, 27, 26, 25, 24, 23, 22, 21, 20, 19, 18, 17, 16, 15, 14, 13, 12, 11, 10, 9, 8, 7, 6, 5, 4, 3, 2, 1]
   \<and> (\<exists>r w'. update_history scenario_today [] (save_history scenario_history fresh_world) = Inr (r, w')
         \<and> length r = 31)"
proof -
  have "map (\<lambda>k. toordinal scenario_today - key_ordinal k) (map fst scenario_history)
      = map (\<lambda>x. toordinal scenario_today - x) (map key_ordinal (map fst scenario_history))"
    by simp
  also have "\<dots> = [35, 34, 33, 32, 31, 30, 29, 28, 27, 26, 25, 24, 23, 22, 21, 20, 19, 18, 17, 16, 15, 14, 13, 12, 11, 10, 9, 8, 7, 6, 5, 4, 3, 2, 1]"
    unfolding scenario_history_ordinals by (simp add: scenario_today_facts)
  finally have a: "map (\<lambda>k. toordinal scenario_today - key_ordinal k) (map fst scenario_history) = [35, 34, 33, 32, 31, 30, 29, 28, 27, 26, 25, 24, 23, 22, 21, 20, 19, 18, 17, 16, 15, 14, 13, 12, 11, 10, 9, 8, 7, 6, 5, 4, 3, 2, 1]" .
  have "\<exists>r w'. update_history scenario_today [] (save_history scenario_history fresh_world) = Inr (r, w')
         \<and> length r = 31"
    unfolding scenario_update by simp
  with a show ?thesis by (intro conjI)
qed

subsection \<open>Facts about the adapters\<close>

lemmas page_eval = select_one_def select_def attr_get_def strip_def is_space_def

lemma indeed_card_ok_eval:
  "indeed_card indeed_card_ok =
     Inr (Some \<lparr>title = ''Caravan Pilot'', company = ''Unknown'',
                 link = ''https://www.indeed.com/job/1'', source = ''Indeed''\<rparr>)"
  "select_one (''span'', Some ''companyName'') indeed_card_ok = None"
  by (simp_all add: indeed_card_def indeed_card_ok_def page_eval)

lemma indeed_card_no_h2_eval: "indeed_card indeed_card_no_h2 = Inl AttributeError"
  by (simp add: indeed_card_def indeed_card_no_h2_def page_eval)

lemma zip_card_eval:
  "zip_card zip_card_no_link = Inr None"
  "zip_card zip_card_ok =
     Inr (Some \<lparr>title = ''Cargo Pilot'', company = ''Unknown'',
                 link = ''https://www.ziprecruiter.com/jobs/3'', source = ''ZipRecruiter''\<rparr>)"
  "select_one (''a'', Some ''t_org_link'') zip_card_ok = None"
  by (simp_all add: zip_card_def zip_card_no_link_def zip_card_ok_def page_eval)

lemma pcc_row_eval:
  "pcc_row u pcc_row_ok =
     Inr (Some \<lparr>title = ''PC-12 Captain'', company = ''AirCo'', link = u,
                 source = ''PilotCareerCenter''\<rparr>)"
  by (simp add: pcc_row_def pcc_row_ok_def page_eval)

lemma glassdoor_item_eval:
  "glassdoor_card glassdoor_item =
     Inr (Some \<lparr>title = ''Pilot Job'', company = ''Unknown'', link = ''https://www.glassdoor.com'',
                 source = ''Glassdoor''\<rparr>)"
  "attr glassdoor_item ''data-company'' = None"
  by (simp_all add: glassdoor_card_def glassdoor_item_def page_eval)

lemma url_of_eval:
  "url_of ''Indeed'' = ''https://www.indeed.com/jobs?q=pilot+caravan+pc-12+cargo&l=Phoenix%2C+AZ''"
  "url_of ''ZipRecruiter'' = ''https://www.ziprecruiter.com/candidate/search?search=pilot&location=Phoenix%2C+AZ''"
  "url_of ''PilotCareerCenter'' = ''https://pilotcareercenter.com/PHOENIX-PILOT-JOBS/KIWA-KDVT-KPHX-KSDL''"
  "url_of ''Glassdoor'' = ''https://www.glassdoor.com/Job/phoenix-pilot-jobs-SRCH_IL.0,7_IC1133904_KO8,13.htm''"
  "url_of [] = []"
  by (simp_all add: url_of_def JOB_SOURCES_def)

lemma source_url_eval:
  "source_url ''Indeed'' = Inr (url_of ''Indeed'')"
  "source_url ''ZipRecruiter'' = Inr (url_of ''ZipRecruiter'')"
  "source_url ''PilotCareerCenter'' = Inr (url_of ''PilotCareerCenter'')"
  "source_url ''Glassdoor'' = Inr (url_of ''Glassdoor'')"
  by (simp_all add: source_url_def url_of_def JOB_SOURCES_def)

lemma fetch_indeed_page:
  "get url = Inr indeed_page \<Longrightarrow> fetch_indeed get url = Inl AttributeError"
proof -
  have "select (''div'', Some ''job_seen_beacon'') indeed_page = [indeed_card_no_h2, indeed_card_ok]"
    by (simp add: select_def indeed_page_def indeed_card_ok_def indeed_card_no_h2_def)
  then show "get url = Inr indeed_page \<Longrightarrow> ?thesis"
    by (simp add: fetch_indeed_def indeed_card_no_h2_eval)
qed

lemma fetch_indeed_page_ok:
  "get url = Inr indeed_page_ok \<Longrightarrow>
   fetch_indeed get url =
     Inr [\<lparr>title = ''Caravan Pilot'', company = ''Unknown'',
           link = ''https://www.indeed.com/job/1'', source = ''Indeed''\<rparr>]"
proof -
  have "select (''div'', Some ''job_seen_beacon'') indeed_page_ok = [indeed_card_ok]"
    by (simp add: select_def indeed_page_ok_def indeed_card_ok_def)
  then show "get url = Inr indeed_page_ok \<Longrightarrow> ?thesis"
    by (simp add: fetch_indeed_def indeed_card_ok_eval)
qed

lemma fetch_zip_page:
  "get url = Inr zip_page \<Longrightarrow>
   fetch_zip get url =
     Inr [\<lparr>title = ''Cargo Pilot'', company = ''Unknown'',
           link = ''https://www.ziprecruiter.com/jobs/3'', source = ''ZipRecruiter''\<rparr>]"
proof -
  have "select (''article'', Some ''job_content'') zip_page = [zip_card_no_link, zip_card_ok]"
    by (simp add: select_def zip_page_def zip_card_ok_def zip_card_no_link_def)
  then show "get url = Inr zip_page \<Longrightarrow> ?thesis"
    by (simp add: fetch_zip_def zip_card_eval)
qed

lemma fetch_pcc_page:
  "get url = Inr pcc_page \<Longrightarrow>
   fetch_pilotcareercenter get url =
     Inr [\<lparr>title = ''PC-12 Captain'', company = ''AirCo'', link = url,
           source = ''PilotCareerCenter''\<rparr>]"
proof -
  have "select_under (''table'', None) (''tr'', None) False pcc_page
          = [Tag ''tr'' [] [] [Tag ''td'' [] [] [Text ''Jobs'']], pcc_row_ok]"
    by (simp add: pcc_page_def pcc_row_ok_def)
  moreover have "pcc_row url (Tag ''tr'' [] [] [Tag ''td'' [] [] [Text ''Jobs'']]) = Inr None"
    by (simp add: pcc_row_def page_eval)
  ultimately show "get url = Inr pcc_page \<Longrightarrow> ?thesis"
    by (simp add: fetch_pilotcareercenter_def pcc_row_eval)
qed

lemma fetch_glassdoor_page:
  "get url = Inr glassdoor_page \<Longrightarrow>
   fetch_glassdoor get url =
     Inr [\<lparr>title = ''Pilot Job'', company = ''Unknown'', link = ''https://www.glassdoor.com'',
           source = ''Glassdoor''\<rparr>]"
proof -
  have "select (''li'', Some ''react-job-listing'') glassdoor_page = [glassdoor_item]"
    by (simp add: select_def glassdoor_page_def glassdoor_item_def)
  then show "get url = Inr glassdoor_page \<Longrightarrow> ?thesis"
    by (simp add: fetch_glassdoor_def glassdoor_item_eval)
qed

lemma fetch_raises: 
  "get url = Inl e \<Longrightarrow> fetch_indeed get url = Inl e"
  "get url = Inl e \<Longrightarrow> fetch_zip get url = Inl e"
  "get url = Inl e \<Longrightarrow> fetch_pilotcareercenter get url = Inl e"
  "get url = Inl e \<Longrightarrow> fetch_glassdoor get url = Inl e"
  by (simp_all add: fetch_indeed_def fetch_zip_def fetch_pilotcareercenter_def fetch_glassdoor_def)

lemma sample_web_eval:
  "sample_web ''Indeed'' (url_of ''Indeed'') = Inl ConnectionError"
  "sample_web ''ZipRecruiter'' (url_of ''ZipRecruiter'') = Inl ConnectionError"
  "sample_web ''PilotCareerCenter'' (url_of ''PilotCareerCenter'') = Inl ConnectionError"
  "sample_web ''Glassdoor'' (url_of ''Glassdoor'') = Inl ConnectionError"
  "f \<noteq> ''Indeed'' \<Longrightarrow> f \<in> {[], ''ZipRecruiter'', ''PilotCareerCenter'', ''Glassdoor''} \<Longrightarrow>
     sample_web f (url_of ''Indeed'') = Inr indeed_page_ok"
  "f \<noteq> ''ZipRecruiter'' \<Longrightarrow> f \<in> {[], ''Indeed'', ''PilotCareerCenter'', ''Glassdoor''} \<Longrightarrow>
     sample_web f (url_of ''ZipRecruiter'') = Inr zip_page"
  "f \<noteq> ''PilotCareerCenter'' \<Longrightarrow> f \<in> {[], ''ZipRecruiter'', ''Indeed'', ''Glassdoor''} \<Longrightarrow>
     sample_web f (url_of ''PilotCareerCenter'') = Inr pcc_page"
  "f \<noteq> ''Glassdoor'' \<Longrightarrow> f \<in> {[], ''ZipRecruiter'', ''PilotCareerCenter'', ''Indeed''} \<Longrightarrow>
     sample_web f (url_of ''Glassdoor'') = Inr glassdoor_page"
  by (auto simp: sample_web_def url_of_eval)

lemma for_each_from_elements:
  "for_each body xs acc = Inr jobs \<Longrightarrow>
   \<forall>j \<in> set jobs. j \<in> set acc \<or> (\<exists>x \<in> set xs. body x = Inr (Some j))"
proof (induction xs arbitrary: acc)
  case Nil
  then show ?case by simp
next
  case (Cons x xs)
  show ?case
  proof (cases "body x")
    case (Inl e)
    with Cons.prems show ?thesis by simp
  next
    case (Inr r)
    show ?thesis
    proof (cases r)
      case None
      with Inr Cons.prems have "for_each body xs acc = Inr jobs" by simp
      from Cons.IH[OF this] show ?thesis by auto
    next
      case (Some j)
      with Inr Cons.prems have "for_each body xs (acc @ [j]) = Inr jobs" by simp
      from Cons.IH[OF this] Inr Some show ?thesis by auto
    qed
  qed
qed

lemma zip_card_without_href:
  "zip_card (Tag ''article'' [''job_content''] [] [Tag ''a'' [] [] [Text ''Cargo Pilot'']]) = Inl KeyError"
  by (simp add: zip_card_def page_eval)

text \<open>
  Claim C8, as amended. The company of a job is the default \<open>Unknown\<close> exactly
  when the element has no company element or attribute: an Indeed card without a
  \<open>span.companyName\<close>, a ZipRecruiter card without an \<open>a.t_org_link\<close>, a Glassdoor
  item without a \<open>data-company\<close> attribute. Where the element or attribute is
  there, the company is its stripped text, or its value, as it is. A
  PilotCareerCenter row has no default: it yields a job only when it has two
  cells, and the company is the text of the second.
\<close>

theorem company_default_when_absent:
  "(indeed_card e1 = Inr (Some j1) \<longrightarrow>
      company j1 = (case select_one (''span'', Some ''companyName'') e1 of
                      None \<Rightarrow> ''Unknown'' | Some tag \<Rightarrow> get_text tag))
   \<and> (zip_card e2 = Inr (Some j2) \<longrightarrow>
      company j2 = (case select_one (''a'', Some ''t_org_link'') e2 of
                      None \<Rightarrow> ''Unknown'' | Some tag \<Rightarrow> get_text tag))
   \<and> (glassdoor_card e3 = Inr (Some j3) \<longrightarrow>
      company j3 = (case attr e3 ''data-company'' of None \<Rightarrow> ''Unknown'' | Some v \<Rightarrow> v))
   \<and> (pcc_row url e4 = Inr (Some j4) \<longrightarrow>
      2 \<le> length (select (''td'', None) e4)
      \<and> company j4 = get_text (select (''td'', None) e4 ! 1))"
proof (intro conjI impI)
  assume "indeed_card e1 = Inr (Some j1)"
  then show "company j1 = (case select_one (''span'', Some ''companyName'') e1 of
                      None \<Rightarrow> ''Unknown'' | Some tag \<Rightarrow> get_text tag)"
    by (auto simp: indeed_card_def Let_def split: option.splits)
next
  assume "zip_card e2 = Inr (Some j2)"
  then show "company j2 = (case select_one (''a'', Some ''t_org_link'') e2 of
                      None \<Rightarrow> ''Unknown'' | Some tag \<Rightarrow> get_text tag)"
    by (auto simp: zip_card_def Let_def split: option.splits)
next
  assume "glassdoor_card e3 = Inr (Some j3)"
  then show "company j3 = (case attr e3 ''data-company'' of None \<Rightarrow> ''Unknown'' | Some v \<Rightarrow> v)"
    by (auto simp: glassdoor_card_def attr_get_def)
next
  assume a: "pcc_row url e4 = Inr (Some j4)"
  then show "2 \<le> length (select (''td'', None) e4)"
    by (auto simp: pcc_row_def Let_def split: if_splits)
  from a show "company j4 = get_text (select (''td'', None) e4 ! 1)"
    by (auto simp: pcc_row_def Let_def split: if_splits)
qed

theorem company_default_when_absent_witness:
  "indeed_card indeed_card_ok =
     Inr (Some \<lparr>title = ''Caravan Pilot'', company = ''Unknown'',
                 link = ''https://www.indeed.com/job/1'', source = ''Indeed''\<rparr>)
   \<and> select_one (''span'', Some ''companyName'') indeed_card_ok = None
   \<and> zip_card zip_card_ok =
     Inr (Some \<lparr>title = ''Cargo Pilot'', company = ''Unknown'',
                 link = ''https://www.ziprecruiter.com/jobs/3'', source = ''ZipRecruiter''\<rparr>)
   \<and> select_one (''a'', Some ''t_org_link'') zip_card_ok = None
   \<and> glassdoor_card (Tag ''li'' [''react-job-listing''] [(''data-company'', ''AirCo'')] []) =
     Inr (Some \<lparr>title = ''Pilot Job'', company = ''AirCo'', link = ''https://www.glassdoor.com'',
                 source = ''Glassdoor''\<rparr>)
   \<and> attr (Tag ''li'' [''react-job-listing''] [(''data-company'', ''AirCo'')] []) ''data-company''
       = Some ''AirCo''
   \<and> glassdoor_card glassdoor_item =
     Inr (Some \<lparr>title = ''Pilot Job'', company = ''Unknown'', link = ''https://www.glassdoor.com'',
                 source = ''Glassdoor''\<rparr>)
   \<and> attr glassdoor_item ''data-company'' = None
   \<and> pcc_row [] pcc_row_ok =
     Inr (Some \<lparr>title = ''PC-12 Captain'', company = ''AirCo'', link = [],
                 source = ''PilotCareerCenter''\<rparr>)
   \<and> 2 \<le> length (select (''td'', None) pcc_row_ok)
   \<and> get_text (select (''td'', None) pcc_row_ok ! 1) = ''AirCo''"
proof -
  have g: "glassdoor_card (Tag ''li'' [''react-job-listing''] [(''data-company'', ''AirCo'')] []) =
     Inr (Some \<lparr>title = ''Pilot Job'', company = ''AirCo'', link = ''https://www.glassdoor.com'',
                 source = ''Glassdoor''\<rparr>)"
    "attr (Tag ''li'' [''react-job-listing''] [(''data-company'', ''AirCo'')] []) ''data-company''
       = Some ''AirCo''"
    by (simp_all add: glassdoor_card_def page_eval)
  from company_default_when_absent[of indeed_card_ok
      "\<lparr>title = ''Caravan Pilot'', company = ''Unknown'',
         link = ''https://www.indeed.com/job/1'', source = ''Indeed''\<rparr>"
      zip_card_ok
      "\<lparr>title = ''Cargo Pilot'', company = ''Unknown'',
         link = ''https://www.ziprecruiter.com/jobs/3'', source = ''ZipRecruiter''\<rparr>"
      glassdoor_item
      "\<lparr>title = ''Pilot Job'', company = ''Unknown'', link = ''https://www.glassdoor.com'',
         source = ''Glassdoor''\<rparr>"
      "[]" pcc_row_ok
      "\<lparr>title = ''PC-12 Captain'', company = ''AirCo'', link = [],
         source = ''PilotCareerCenter''\<rparr>"]
    indeed_card_ok_eval zip_card_eval glassdoor_item_eval pcc_row_eval[of "[]"] g
  show ?thesis by simp
qed

text \<open>
  The claim as stated fails where the company element is there and holds no text:
  no adapter replaces an empty company. A table row whose second cell is empty
  gives a job with the empty string as company, and so do a Glassdoor item whose
  \<open>data-company\<close> attribute is empty, an Indeed card whose \<open>span.companyName\<close>
  holds only white space, and a ZipRecruiter card whose \<open>a.t_org_link\<close> is empty.
\<close>

theorem empty_company_counterexample:
  "fetch_pilotcareercenter
      (\<lambda>u. Inr (Tag ''[document]'' [] []
         [Tag ''table'' [] []
            [Tag ''tr'' [] [] [Tag ''td'' [] [] [Text ''PC-12 Captain''], Tag ''td'' [] [] []]]]))
      ''https://pilotcareercenter.com/PHOENIX-PILOT-JOBS/KIWA-KDVT-KPHX-KSDL''
     = Inr [\<lparr>title = ''PC-12 Captain'', company = [],
             link = ''https://pilotcareercenter.com/PHOENIX-PILOT-JOBS/KIWA-KDVT-KPHX-KSDL'',
             source = ''PilotCareerCenter''\<rparr>]
   \<and> fetch_glassdoor
      (\<lambda>u. Inr (Tag ''[document]'' [] []
         [Tag ''li'' [''react-job-listing'']
            [(''data-normalize-job-title'', ''Caravan Pilot''), (''data-company'', []),
             (''data-link'', ''/job/7'')] []]))
      ''https://www.glassdoor.com/Job/phoenix-pilot-jobs-SRCH_IL.0,7_IC1133904_KO8,13.htm''
     = Inr [\<lparr>title = ''Caravan Pilot'', company = [], link = ''https://www.glassdoor.com/job/7'',
             source = ''Glassdoor''\<rparr>]
   \<and> fetch_indeed
      (\<lambda>u. Inr (Tag ''[document]'' [] []
         [Tag ''div'' [''job_seen_beacon''] []
            [Tag ''h2'' [] [] [Tag ''a'' [] [(''href'', ''/job/1'')] [Text ''Caravan Pilot'']],
             Tag ''span'' [''companyName''] [] [Text '' '']]]))
      ''https://www.indeed.com/jobs?q=pilot+caravan+pc-12+cargo&l=Phoenix%2C+AZ''
     = Inr [\<lparr>title = ''Caravan Pilot'', company = [], link = ''https://www.indeed.com/job/1'',
             source = ''Indeed''\<rparr>]
   \<and> fetch_zip
      (\<lambda>u. Inr (Tag ''[document]'' [] []
         [Tag ''article'' [''job_content''] []
            [Tag ''a'' [] [(''href'', ''/jobs/3'')] [Text ''Cargo Pilot''],
             Tag ''a'' [''t_org_link''] [(''href'', ''/co/9'')] []]]))
      ''https://www.ziprecruiter.com/candidate/search?search=pilot&location=Phoenix%2C+AZ''
     = Inr [\<lparr>title = ''Cargo Pilot'', company = [], link = ''https://www.ziprecruiter.com/jobs/3'',
             source = ''ZipRecruiter''\<rparr>]
   \<and> ([] :: string) \<noteq> ''Unknown''"
  by (simp add: fetch_pilotcareercenter_def fetch_glassdoor_def fetch_indeed_def fetch_zip_def
        pcc_row_def glassdoor_card_def indeed_card_def zip_card_def page_eval)

text \<open>
  Claim C5. The claim: an element that cannot be normalized is skipped and the
  adapter returns the jobs of the remaining elements. \<open>fetch_zip\<close> skips a card
  without a link and \<open>fetch_pilotcareercenter\<close> a row with fewer than two cells;
  \<open>fetch_indeed\<close> has no such check. On a page whose first card has no \<open>h2\<close> and
  whose second card is complete, \<open>fetch_indeed\<close> raises \<open>AttributeError\<close> and
  returns no job, while \<open>fetch_zip\<close> on a page of the same shape returns the job of
  the second card.
\<close>

theorem fetch_indeed_aborts_on_card_without_h2:
  "fetch_indeed (\<lambda>u. Inr indeed_page) (url_of ''Indeed'') = Inl AttributeError
   \<and> select (''div'', Some ''job_seen_beacon'') indeed_page = [indeed_card_no_h2, indeed_card_ok]
   \<and> indeed_card indeed_card_ok =
       Inr (Some \<lparr>title = ''Caravan Pilot'', company = ''Unknown'',
                   link = ''https://www.indeed.com/job/1'', source = ''Indeed''\<rparr>)
   \<and> fetch_zip (\<lambda>u. Inr zip_page) (url_of ''ZipRecruiter'') =
       Inr [\<lparr>title = ''Cargo Pilot'', company = ''Unknown'',
             link = ''https://www.ziprecruiter.com/jobs/3'', source = ''ZipRecruiter''\<rparr>]"
proof -
  have "select (''div'', Some ''job_seen_beacon'') indeed_page = [indeed_card_no_h2, indeed_card_ok]"
    by (simp add: select_def indeed_page_def indeed_card_ok_def indeed_card_no_h2_def)
  then show ?thesis
    by (simp add: fetch_indeed_page fetch_zip_page indeed_card_ok_eval)
qed

subsection \<open>Facts about \<open>main\<close>\<close>

lemma fetch_all_eq:
  "fetch_all get =
     (case fetch_indeed get (url_of ''Indeed'') of
        Inl e \<Rightarrow> Inl e
      | Inr j1 \<Rightarrow>
     (case fetch_zip get (url_of ''ZipRecruiter'') of
        Inl e \<Rightarrow> Inl e
      | Inr j2 \<Rightarrow>
     (case fetch_pilotcareercenter get (url_of ''PilotCareerCenter'') of
        Inl e \<Rightarrow> Inl e
      | Inr j3 \<Rightarrow>
     (case fetch_glassdoor get (url_of ''Glassdoor'') of
        Inl e \<Rightarrow> Inl e
      | Inr j4 \<Rightarrow> Inr (j1 @ j2 @ j3 @ j4)))))"
  by (simp add: fetch_all_def extend_from_def source_url_eval split: sum.splits)

lemma main_raises: "fetch_all get = Inl e \<Longrightarrow> main get today w = Inl e"
  by (simp add: main_def)

lemma main_completes:
  assumes "fetch_all get = Inr all_jobs"
    and "update_history today (filter_jobs all_jobs) w = Inr (h, w1)"
  shows "main get today w =
     Inr (generate_html today (filter_jobs all_jobs) h w1
            \<lparr>stdout := stdout w1 @ [summary (filter_jobs all_jobs) h]\<rparr>)"
  using assms by (simp add: main_def Let_def generate_html_def)

lemma sample_fetches:
  "f \<in> {[], ''ZipRecruiter'', ''PilotCareerCenter'', ''Glassdoor''} \<Longrightarrow>
     fetch_indeed (sample_web f) (url_of ''Indeed'') = Inr [job_indeed]"
  "f \<in> {[], ''Indeed'', ''PilotCareerCenter'', ''Glassdoor''} \<Longrightarrow>
     fetch_zip (sample_web f) (url_of ''ZipRecruiter'') = Inr [job_zip]"
  "f \<in> {[], ''ZipRecruiter'', ''Indeed'', ''Glassdoor''} \<Longrightarrow>
     fetch_pilotcareercenter (sample_web f) (url_of ''PilotCareerCenter'') = Inr [job_pcc]"
  "f \<in> {[], ''ZipRecruiter'', ''PilotCareerCenter'', ''Indeed''} \<Longrightarrow>
     fetch_glassdoor (sample_web f) (url_of ''Glassdoor'') = Inr [job_glassdoor]"
proof -
  assume "f \<in> {[], ''ZipRecruiter'', ''PilotCareerCenter'', ''Glassdoor''}"
  then have "sample_web f (url_of ''Indeed'') = Inr indeed_page_ok"
    by (intro sample_web_eval(5)) auto
  then show "fetch_indeed (sample_web f) (url_of ''Indeed'') = Inr [job_indeed]"
    unfolding job_indeed_def by (rule fetch_indeed_page_ok)
next
  assume "f \<in> {[], ''Indeed'', ''PilotCareerCenter'', ''Glassdoor''}"
  then have "sample_web f (url_of ''ZipRecruiter'') = Inr zip_page"
    by (intro sample_web_eval(6)) auto
  then show "fetch_zip (sample_web f) (url_of ''ZipRecruiter'') = Inr [job_zip]"
    unfolding job_zip_def by (rule fetch_zip_page)
next
  assume "f \<in> {[], ''ZipRecruiter'', ''Indeed'', ''Glassdoor''}"
  then have "sample_web f (url_of ''PilotCareerCenter'') = Inr pcc_page"
    by (intro sample_web_eval(7)) auto
  then show "fetch_pilotcareercenter (sample_web f) (url_of ''PilotCareerCenter'') = Inr [job_pcc]"
    unfolding job_pcc_def by (rule fetch_pcc_page)
next
  assume "f \<in> {[], ''ZipRecruiter'', ''PilotCareerCenter'', ''Indeed''}"
  then have "sample_web f (url_of ''Glassdoor'') = Inr glassdoor_page"
    by (intro sample_web_eval(8)) auto
  then show "fetch_glassdoor (sample_web f) (url_of ''Glassdoor'') = Inr [job_glassdoor]"
    unfolding job_glassdoor_def by (rule fetch_glassdoor_page)
qed

lemma sample_fetch_fails:
  "fetch_indeed (sample_web ''Indeed'') (url_of ''Indeed'') = Inl ConnectionError"
  "fetch_zip (sample_web ''ZipRecruiter'') (url_of ''ZipRecruiter'') = Inl ConnectionError"
  "fetch_pilotcareercenter (sample_web ''PilotCareerCenter'') (url_of ''PilotCareerCenter'')
     = Inl ConnectionError"
  "fetch_glassdoor (sample_web ''Glassdoor'') (url_of ''Glassdoor'') = Inl ConnectionError"
  by (simp_all add: fetch_raises sample_web_eval(1-4))

lemma filter_sample_jobs:
  "filter_jobs ([job_indeed] @ [job_zip] @ [job_pcc] @ [job_glassdoor]) = [job_indeed, job_zip, job_pcc]"
  by (simp add: filter_jobs_def filter_jobs_kw_def KEYWORDS_def job_indeed_def job_zip_def
      job_pcc_def job_glassdoor_def lower_def lower_char_def char_of_def bit_0 url_of_eval)

lemma sample_update:
  "update_history scenario_today jobs fresh_world =
     Inr ([(''2026-11-03'', jobs)], save_history [(''2026-11-03'', jobs)] fresh_world)"
  by (simp add: update_history_def DAYS_TO_KEEP_def fresh_update)

text \<open>
  Claim C1, as amended. \<open>main\<close> has no exception handler: when the fetch of one
  source raises, \<open>main\<close> raises the same exception at that point, whichever source
  it is, and nothing is saved, written or printed. When the four adapters succeed,
  the pooled jobs are their outputs in the order Indeed, ZipRecruiter,
  PilotCareerCenter, Glassdoor; and when the update of the History succeeds too,
  the filtered jobs are saved to the History, the page is written and the summary
  is printed.
\<close>

theorem main_stops_at_failing_source:
  "(fetch_indeed get (url_of ''Indeed'') = Inl e \<longrightarrow> main get today w = Inl e)
   \<and> (fetch_indeed get (url_of ''Indeed'') = Inr j1
        \<and> fetch_zip get (url_of ''ZipRecruiter'') = Inl e \<longrightarrow> main get today w = Inl e)
   \<and> (fetch_indeed get (url_of ''Indeed'') = Inr j1
        \<and> fetch_zip get (url_of ''ZipRecruiter'') = Inr j2
        \<and> fetch_pilotcareercenter get (url_of ''PilotCareerCenter'') = Inl e
        \<longrightarrow> main get today w = Inl e)
   \<and> (fetch_indeed get (url_of ''Indeed'') = Inr j1
        \<and> fetch_zip get (url_of ''ZipRecruiter'') = Inr j2
        \<and> fetch_pilotcareercenter get (url_of ''PilotCareerCenter'') = Inr j3
        \<and> fetch_glassdoor get (url_of ''Glassdoor'') = Inl e
        \<longrightarrow> main get today w = Inl e)
   \<and> (fetch_indeed get (url_of ''Indeed'') = Inr j1
        \<and> fetch_zip get (url_of ''ZipRecruiter'') = Inr j2
        \<and> fetch_pilotcareercenter get (url_of ''PilotCareerCenter'') = Inr j3
        \<and> fetch_glassdoor get (url_of ''Glassdoor'') = Inr j4
        \<and> update_history today (filter_jobs (j1 @ j2 @ j3 @ j4)) w = Inr (h, w1)
        \<longrightarrow> fetch_all get = Inr (j1 @ j2 @ j3 @ j4)
            \<and> main get today w =
                Inr (generate_html today (filter_jobs (j1 @ j2 @ j3 @ j4)) h w1
                       \<lparr>stdout := stdout w1 @ [summary (filter_jobs (j1 @ j2 @ j3 @ j4)) h]\<rparr>)
            \<and> w1 = save_history h w)"
proof (intro conjI impI)
  assume "fetch_indeed get (url_of ''Indeed'') = Inl e"
  then have "fetch_all get = Inl e" by (simp add: fetch_all_eq)
  then show "main get today w = Inl e" by (rule main_raises)
next
  assume "fetch_indeed get (url_of ''Indeed'') = Inr j1
        \<and> fetch_zip get (url_of ''ZipRecruiter'') = Inl e"
  then have "fetch_all get = Inl e" by (simp add: fetch_all_eq)
  then show "main get today w = Inl e" by (rule main_raises)
next
  assume "fetch_indeed get (url_of ''Indeed'') = Inr j1
        \<and> fetch_zip get (url_of ''ZipRecruiter'') = Inr j2
        \<and> fetch_pilotcareercenter get (url_of ''PilotCareerCenter'') = Inl e"
  then have "fetch_all get = Inl e" by (simp add: fetch_all_eq)
  then show "main get today w = Inl e" by (rule main_raises)
next
  assume "fetch_indeed get (url_of ''Indeed'') = Inr j1
        \<and> fetch_zip get (url_of ''ZipRecruiter'') = Inr j2
        \<and> fetch_pilotcareercenter get (url_of ''PilotCareerCenter'') = Inr j3
        \<and> fetch_glassdoor get (url_of ''Glassdoor'') = Inl e"
  then have "fetch_all get = Inl e" by (simp add: fetch_all_eq)
  then show "main get today w = Inl e" by (rule main_raises)
next
  assume a: "fetch_indeed get (url_of ''Indeed'') = Inr j1
        \<and> fetch_zip get (url_of ''ZipRecruiter'') = Inr j2
        \<and> fetch_pilotcareercenter get (url_of ''PilotCareerCenter'') = Inr j3
        \<and> fetch_glassdoor get (url_of ''Glassdoor'') = Inr j4
        \<and> update_history today (filter_jobs (j1 @ j2 @ j3 @ j4)) w = Inr (h, w1)"
  then show f: "fetch_all get = Inr (j1 @ j2 @ j3 @ j4)" by (simp add: fetch_all_eq)
  from a have u: "update_history today (filter_jobs (j1 @ j2 @ j3 @ j4)) w = Inr (h, w1)" by simp
  from main_completes[OF f u]
  show "main get today w =
      Inr (generate_html today (filter_jobs (j1 @ j2 @ j3 @ j4)) h w1
             \<lparr>stdout := stdout w1 @ [summary (filter_jobs (j1 @ j2 @ j3 @ j4)) h]\<rparr>)" .
  from u show "w1 = save_history h w"
    unfolding update_history_def by (rule update_history_days_Inr)
qed

theorem main_stops_at_failing_source_witness:
  "(fetch_indeed (sample_web ''Indeed'') (url_of ''Indeed'') = Inl ConnectionError
      \<and> main (sample_web ''Indeed'') scenario_today fresh_world = Inl ConnectionError)
   \<and> (fetch_indeed (sample_web ''ZipRecruiter'') (url_of ''Indeed'') = Inr [job_indeed]
      \<and> fetch_zip (sample_web ''ZipRecruiter'') (url_of ''ZipRecruiter'') = Inl ConnectionError
      \<and> main (sample_web ''ZipRecruiter'') scenario_today fresh_world = Inl ConnectionError)
   \<and> (fetch_indeed (sample_web ''PilotCareerCenter'') (url_of ''Indeed'') = Inr [job_indeed]
      \<and> fetch_zip (sample_web ''PilotCareerCenter'') (url_of ''ZipRecruiter'') = Inr [job_zip]
      \<and> fetch_pilotcareercenter (sample_web ''PilotCareerCenter'') (url_of ''PilotCareerCenter'')
          = Inl ConnectionError
      \<and> main (sample_web ''PilotCareerCenter'') scenario_today fresh_world = Inl ConnectionError)
   \<and> (fetch_indeed (sample_web ''Glassdoor'') (url_of ''Indeed'') = Inr [job_indeed]
      \<and> fetch_zip (sample_web ''Glassdoor'') (url_of ''ZipRecruiter'') = Inr [job_zip]
      \<and> fetch_pilotcareercenter (sample_web ''Glassdoor'') (url_of ''PilotCareerCenter'') = Inr [job_pcc]
      \<and> fetch_glassdoor (sample_web ''Glassdoor'') (url_of ''Glassdoor'') = Inl ConnectionError
      \<and> main (sample_web ''Glassdoor'') scenario_today fresh_world = Inl ConnectionError)
   \<and> (fetch_indeed (sample_web []) (url_of ''Indeed'') = Inr [job_indeed]
      \<and> fetch_zip (sample_web []) (url_of ''ZipRecruiter'') = Inr [job_zip]
      \<and> fetch_pilotcareercenter (sample_web []) (url_of ''PilotCareerCenter'') = Inr [job_pcc]
      \<and> fetch_glassdoor (sample_web []) (url_of ''Glassdoor'') = Inr [job_glassdoor]
      \<and> update_history scenario_today
            (filter_jobs ([job_indeed] @ [job_zip] @ [job_pcc] @ [job_glassdoor])) fresh_world
          = Inr ([(''2026-11-03'', [job_indeed, job_zip, job_pcc])],
                 save_history [(''2026-11-03'', [job_indeed, job_zip, job_pcc])] fresh_world)
      \<and> fetch_all (sample_web []) = Inr ([job_indeed] @ [job_zip] @ [job_pcc] @ [job_glassdoor])
      \<and> main (sample_web []) scenario_today fresh_world =
           Inr (generate_html scenario_today
                  (filter_jobs ([job_indeed] @ [job_zip] @ [job_pcc] @ [job_glassdoor]))
                  [(''2026-11-03'', [job_indeed, job_zip, job_pcc])]
                  (save_history [(''2026-11-03'', [job_indeed, job_zip, job_pcc])] fresh_world)
                \<lparr>stdout := stdout (save_history [(''2026-11-03'', [job_indeed, job_zip, job_pcc])] fresh_world)
                    @ [summary (filter_jobs ([job_indeed] @ [job_zip] @ [job_pcc] @ [job_glassdoor]))
                         [(''2026-11-03'', [job_indeed, job_zip, job_pcc])]]\<rparr>))"
proof -
  let ?H = "[(''2026-11-03'', [job_indeed, job_zip, job_pcc])]"
  let ?all = "[job_indeed] @ [job_zip] @ [job_pcc] @ [job_glassdoor]"
  have i: "fetch_indeed (sample_web f) (url_of ''Indeed'') = Inr [job_indeed]"
    if "f \<in> {[], ''ZipRecruiter'', ''PilotCareerCenter'', ''Glassdoor''}" for f
    using that by (rule sample_fetches(1))
  have z: "fetch_zip (sample_web f) (url_of ''ZipRecruiter'') = Inr [job_zip]"
    if "f \<in> {[], ''Indeed'', ''PilotCareerCenter'', ''Glassdoor''}" for f
    using that by (rule sample_fetches(2))
  have p: "fetch_pilotcareercenter (sample_web f) (url_of ''PilotCareerCenter'') = Inr [job_pcc]"
    if "f \<in> {[], ''ZipRecruiter'', ''Indeed'', ''Glassdoor''}" for f
    using that by (rule sample_fetches(3))
  have g: "fetch_glassdoor (sample_web []) (url_of ''Glassdoor'') = Inr [job_glassdoor]"
    by (rule sample_fetches(4)) simp
  have u: "update_history scenario_today (filter_jobs ?all) fresh_world
      = Inr (?H, save_history ?H fresh_world)"
    by (simp only: filter_sample_jobs sample_update)
  note T = main_stops_at_failing_source[where today = scenario_today and w = fresh_world
      and e = ConnectionError and ?j1.0 = "[job_indeed]" and ?j2.0 = "[job_zip]"
      and ?j3.0 = "[job_pcc]" and ?j4.0 = "[job_glassdoor]" and h = ?H
      and ?w1.0 = "save_history ?H fresh_world"]
  have c1: "main (sample_web ''Indeed'') scenario_today fresh_world = Inl ConnectionError"
    using T[of "sample_web ''Indeed''"] sample_fetch_fails(1) by blast
  have c2: "main (sample_web ''ZipRecruiter'') scenario_today fresh_world = Inl ConnectionError"
    using T[of "sample_web ''ZipRecruiter''"] sample_fetch_fails(2) i[of "''ZipRecruiter''"] by simp
  have c3: "main (sample_web ''PilotCareerCenter'') scenario_today fresh_world = Inl ConnectionError"
    using T[of "sample_web ''PilotCareerCenter''"] sample_fetch_fails(3)
      i[of "''PilotCareerCenter''"] z[of "''PilotCareerCenter''"] by simp
  have c4: "main (sample_web ''Glassdoor'') scenario_today fresh_world = Inl ConnectionError"
    using T[of "sample_web ''Glassdoor''"] sample_fetch_fails(4)
      i[of "''Glassdoor''"] z[of "''Glassdoor''"] p[of "''Glassdoor''"] by simp
  have c5: "fetch_all (sample_web []) = Inr ?all
      \<and> main (sample_web []) scenario_today fresh_world =
           Inr (generate_html scenario_today (filter_jobs ?all) ?H (save_history ?H fresh_world)
                \<lparr>stdout := stdout (save_history ?H fresh_world) @ [summary (filter_jobs ?all) ?H]\<rparr>)"
    using T[of "sample_web []"] i[of "[]"] z[of "[]"] p[of "[]"] g u by simp
  show ?thesis
    using c1 c2 c3 c4 c5 sample_fetch_fails i[of "''ZipRecruiter''"] i[of "''PilotCareerCenter''"]
      i[of "''Glassdoor''"] i[of "[]"] z[of "''PilotCareerCenter''"] z[of "''Glassdoor''"] z[of "[]"]
      p[of "''Glassdoor''"] p[of "[]"] g u
    by simp
qed

text \<open>
  The claim as stated, that the run completes when one source fails, is false: with
  Indeed unreachable and the three other adapters returning their jobs, \<open>main\<close>
  raises \<open>ConnectionError\<close>.
\<close>

theorem main_failing_source_counterexample:
  "fetch_indeed (sample_web ''Indeed'') (url_of ''Indeed'') = Inl ConnectionError
   \<and> fetch_zip (sample_web ''Indeed'') (url_of ''ZipRecruiter'') = Inr [job_zip]
   \<and> fetch_pilotcareercenter (sample_web ''Indeed'') (url_of ''PilotCareerCenter'') = Inr [job_pcc]
   \<and> fetch_glassdoor (sample_web ''Indeed'') (url_of ''Glassdoor'') = Inr [job_glassdoor]
   \<and> main (sample_web ''Indeed'') scenario_today fresh_world = Inl ConnectionError"
proof -
  have "fetch_all (sample_web ''Indeed'') = Inl ConnectionError"
    by (simp add: fetch_all_eq sample_fetch_fails(1))
  then have "main (sample_web ''Indeed'') scenario_today fresh_world = Inl ConnectionError"
    by (rule main_raises)
  then show ?thesis
    by (simp add: sample_fetch_fails(1) sample_fetches)
qed

subsection \<open>The order of day-keys\<close>










lemma ymd_key_isoformat: "valid_date d \<Longrightarrow> ymd_key (isoformat d)"
  by (simp add: ymd_key_def fromisoformat_isoformat)




subsection \<open>Facts about the page\<close>







text \<open>
  The keys of the History \<open>update_history\<close> returns are of the form \<open>YYYY-MM-DD\<close>
  when those of the stored History are: the key it adds is.
\<close>

lemma update_history_days_ymd_keys:
  assumes "update_history_days n today today_jobs w = Inr (h, w')" "load_history w = Inr h0"
    and "list_all ymd_key (map fst h0)" "valid_date today"
  shows "list_all ymd_key (map fst h)"
proof -
  from assms(1,2) obtain c where p: "prune c (dict_set h0 (isoformat today) today_jobs) = Inr h"
    by (auto simp: update_history_days_def Let_def split: sum.splits)
  have sub: "prune c xs = Inr ys \<Longrightarrow> set ys \<subseteq> set xs" for xs ys
  proof (induction xs arbitrary: ys)
    case Nil
    then show ?case by simp
  next
    case (Cons x xs)
    obtain k v where x: "x = (k, v)" by (cases x)
    from Cons.prems obtain zs where zs: "prune c xs = Inr zs"
      by (auto simp: x split: sum.splits)
    from Cons.IH[OF zs] Cons.prems zs show ?case
      by (auto simp: x split: sum.splits if_splits)
  qed
  have keys: "set (map fst (dict_set h0 (isoformat today) today_jobs))
                \<subseteq> insert (isoformat today) (set (map fst h0))"
    by (simp add: keys_dict_set subset_insertI)
  show ?thesis
    unfolding list_all_iff
  proof
    fix k assume "k \<in> set (map fst h)"
    then have "k \<in> set (map fst (dict_set h0 (isoformat today) today_jobs))"
      using sub[OF p] by auto
    with keys have "k = isoformat today \<or> k \<in> set (map fst h0)" by auto
    then show "ymd_key k"
      using ymd_key_isoformat[OF assms(4)] assms(3) by (auto simp: list_all_iff)
  qed
qed








end
